theory Spec2Isabelle
  imports Complex_Main
begin

section \<open>Errors\<close>

text \<open>
  The Python exceptions that the modelled functions can raise.  A function that can
  raise returns \<open>py_error + 'a\<close>, with \<open>Inl\<close> for the exception.
\<close>

datatype py_error = KeyError | ZeroDivisionError | IndexError | AttributeError

section \<open>Markets and the precision engine (\<open>tradebot/base/ems.py\<close>)\<close>

text \<open>
  A \<open>Decimal\<close> is modelled by its value, a rational (no 28-digit context rounding).

  \<open>market.precision.amount\<close> is read through \<open>Decimal(str(precision))\<close>, and
  \<open>Decimal.quantize\<close> uses only the decimal exponent of its argument.  A precision is
  therefore kept as the decimal literal that \<open>str\<close> prints: a coefficient and the number
  of digits after the point, so that \<open>0.001\<close> is coefficient 1 with 3 places.
\<close>

record precision =
  coeff :: int
  places :: nat

definition precision_value :: "precision \<Rightarrow> rat" where
  "precision_value p = of_int (coeff p) / 10 ^ places p"

text \<open>
  Modelled from the spec: \<open>BaseMarket\<close> (module \<open>tradebot.schema\<close>) is not among the
  sources; only the fields read by the execution management system are kept
  (\<open>precision.amount\<close>, \<open>precision.price\<close>, \<open>limits.amount.min\<close>, the last a float).
\<close>

record BaseMarket =
  precision_amount :: precision
  precision_price :: precision
  limits_amount_min :: rat

datatype rounding_mode = Round | Ceil | Floor

text \<open>\<open>ROUND_HALF_UP\<close> rounds a tie away from zero.\<close>

definition round_half_up :: "rat \<Rightarrow> int" where
  "round_half_up x = (if 0 \<le> x then \<lfloor>x + 1 / 2\<rfloor> else - \<lfloor>- x + 1 / 2\<rfloor>)"

text \<open>
  \<open>x.quantize(q, rounding)\<close> where \<open>q\<close> has \<open>k\<close> digits after the point: the multiple of
  \<open>10\<^sup>-\<^sup>k\<close> chosen by the rounding mode.
\<close>

definition quantize :: "rat \<Rightarrow> nat \<Rightarrow> rounding_mode \<Rightarrow> rat" where
  "quantize x k mode =
     (case mode of
        Round \<Rightarrow> of_int (round_half_up (x * 10 ^ k)) / 10 ^ k
      | Ceil \<Rightarrow> of_int \<lceil>x * 10 ^ k\<rceil> / 10 ^ k
      | Floor \<Rightarrow> of_int \<lfloor>x * 10 ^ k\<rfloor> / 10 ^ k)"

text \<open>\<open>int(precision)\<close> truncates towards zero; it is only taken when \<open>precision >= 1\<close>.\<close>

definition py_int :: "rat \<Rightarrow> int" where
  "py_int x = (if 0 \<le> x then \<lfloor>x\<rfloor> else \<lceil>x\<rceil>)"

text \<open>
  The body of \<open>_amount_to_precision\<close> after the market has been looked up; \<open>amount\<close> is
  the value of \<open>Decimal(str(amount))\<close>, the decimal that \<open>str\<close> prints for the float.
\<close>

definition to_precision :: "precision \<Rightarrow> rat \<Rightarrow> rounding_mode \<Rightarrow> rat" where
  "to_precision p amount mode =
     (if 1 \<le> precision_value p
      then (let exp = of_int (py_int (precision_value p))
            in quantize (amount / exp) 0 mode * exp)
      else quantize (amount / 1) (places p) mode * 1)"

definition amount_to_precision ::
  "(string \<rightharpoonup> BaseMarket) \<Rightarrow> string \<Rightarrow> rat \<Rightarrow> rounding_mode \<Rightarrow> py_error + rat" where
  "amount_to_precision market symbol amount mode =
     (case market symbol of
        None \<Rightarrow> Inl KeyError
      | Some m \<Rightarrow> Inr (to_precision (precision_amount m) amount mode))"

section \<open>Python floats\<close>

text \<open>
  A float is modelled by its exact value, a rational.  What the code does with floats is
  taken through five operations: \<open>float(d)\<close> of a \<open>Decimal\<close>, the sum, the difference and
  the quotient of two floats, and \<open>Decimal(str(x))\<close>, the decimal that \<open>str\<close> prints.  The
  functions of the execution management system take them as a parameter.
\<close>

record float_ops =
  fl_of_decimal :: "rat \<Rightarrow> rat"
  fl_add :: "rat \<Rightarrow> rat \<Rightarrow> rat"
  fl_sub :: "rat \<Rightarrow> rat \<Rightarrow> rat"
  fl_div :: "rat \<Rightarrow> rat \<Rightarrow> rat"
  fl_str :: "rat \<Rightarrow> rat"

text \<open>
  The operations of IEEE 754 binary64, which are those of CPython: every result is the
  exact result rounded to 53 significant bits, a tie going to the even neighbour.
  Overflow, subnormal numbers, infinities and NaN are left out.
\<close>

definition pow_int :: "nat \<Rightarrow> int \<Rightarrow> rat" where
  "pow_int b e = (if 0 \<le> e then of_nat b ^ nat e else 1 / of_nat b ^ nat (- e))"

definition round_half_even :: "rat \<Rightarrow> int" where
  "round_half_even x =
     (if x - of_int \<lfloor>x\<rfloor> < 1 / 2 then \<lfloor>x\<rfloor>
      else if 1 / 2 < x - of_int \<lfloor>x\<rfloor> then \<lfloor>x\<rfloor> + 1
      else if even \<lfloor>x\<rfloor> then \<lfloor>x\<rfloor> else \<lfloor>x\<rfloor> + 1)"

text \<open>
  The exponent \<open>e\<close> with \<open>b\<^sup>e \<le> x < b\<^sup>e\<^sup>+\<^sup>1\<close> for a positive \<open>x\<close>, found by a search
  from 0 that takes one step per unit of the exponent.
\<close>

fun find_exponent :: "nat \<Rightarrow> nat \<Rightarrow> rat \<Rightarrow> int \<Rightarrow> int" where
  "find_exponent b 0 x e = e"
| "find_exponent b (Suc k) x e =
     (if x < pow_int b e then find_exponent b k x (e - 1)
      else if pow_int b (e + 1) \<le> x then find_exponent b k x (e + 1)
      else e)"

definition exponent_of :: "nat \<Rightarrow> rat \<Rightarrow> int" where
  "exponent_of b x = find_exponent b 1100 \<bar>x\<bar> 0"

definition round_to :: "rat \<Rightarrow> rat \<Rightarrow> rat" where
  "round_to u x = of_int (round_half_even (x / u)) * u"

definition to_double :: "rat \<Rightarrow> rat" where
  "to_double x = (if x = 0 then 0 else round_to (pow_int 2 (exponent_of 2 x - 52)) x)"

text \<open>
  \<open>str\<close> prints the shortest decimal that reads back as the same float, and of the
  decimals of that length the nearest.  For 1 to 17 significant digits in turn, the two
  decimals of that length that enclose \<open>x\<close> are tried.
\<close>

definition round_down_to :: "rat \<Rightarrow> rat \<Rightarrow> rat" where
  "round_down_to u x = of_int \<lfloor>x / u\<rfloor> * u"

definition round_up_to :: "rat \<Rightarrow> rat \<Rightarrow> rat" where
  "round_up_to u x = of_int \<lceil>x / u\<rceil> * u"

definition choose_digits :: "rat \<Rightarrow> rat \<Rightarrow> rat \<Rightarrow> rat option" where
  "choose_digits x lo hi =
     (if to_double lo = x
      then (if to_double hi = x then Some (if x - lo \<le> hi - x then lo else hi) else Some lo)
      else if to_double hi = x then Some hi else None)"

fun shortest_digits :: "nat \<Rightarrow> int \<Rightarrow> rat \<Rightarrow> rat" where
  "shortest_digits 0 e x = x"
| "shortest_digits (Suc k) e x =
     (case choose_digits x (round_down_to (pow_int 10 e) x) (round_up_to (pow_int 10 e) x) of
        Some d \<Rightarrow> d
      | None \<Rightarrow> shortest_digits k (e - 1) x)"

definition float_str :: "rat \<Rightarrow> rat" where
  "float_str x =
     (if x = 0 then 0
      else if 0 < x then shortest_digits 17 (exponent_of 10 x) x
      else - shortest_digits 17 (exponent_of 10 (- x)) (- x))"

definition ieee :: float_ops where
  "ieee =
     \<lparr>fl_of_decimal = to_double,
      fl_add = (\<lambda>a b. to_double (a + b)),
      fl_sub = (\<lambda>a b. to_double (a - b)),
      fl_div = (\<lambda>a b. to_double (a / b)),
      fl_str = float_str\<rparr>"

section \<open>Orders (\<open>tradebot.schema\<close>, \<open>tradebot.constants\<close>)\<close>

text \<open>
  Modelled from the spec: the enumeration \<open>OrderStatus\<close> of \<open>tradebot.constants\<close> is not
  among the sources; its members are the statuses of the specification's transition table.
\<close>

datatype OrderStatus =
  INITIALIZED | PENDING | ACCEPTED | PARTIALLY_FILLED | FILLED | CANCELING | CANCELED
  | FAILED | EXPIRED

text \<open>
  Modelled from the spec: the table \<open>STATUS_TRANSITIONS\<close> of \<open>tradebot.constants\<close> is not
  among the sources; the rows are those of the specification's status transition table, the
  four terminal statuses having no successor.
\<close>

fun STATUS_TRANSITIONS :: "OrderStatus \<Rightarrow> OrderStatus list" where
  "STATUS_TRANSITIONS INITIALIZED = [PENDING, FAILED]"
| "STATUS_TRANSITIONS PENDING =
     [ACCEPTED, PARTIALLY_FILLED, FILLED, CANCELING, CANCELED, FAILED, EXPIRED]"
| "STATUS_TRANSITIONS ACCEPTED = [PARTIALLY_FILLED, FILLED, CANCELING, CANCELED, EXPIRED]"
| "STATUS_TRANSITIONS PARTIALLY_FILLED =
     [PARTIALLY_FILLED, FILLED, CANCELING, CANCELED, EXPIRED]"
| "STATUS_TRANSITIONS CANCELING = [PARTIALLY_FILLED, FILLED, CANCELED, FAILED]"
| "STATUS_TRANSITIONS FILLED = []"
| "STATUS_TRANSITIONS CANCELED = []"
| "STATUS_TRANSITIONS FAILED = []"
| "STATUS_TRANSITIONS EXPIRED = []"

text \<open>
  Modelled from the spec: \<open>ExchangeType\<close>, \<open>OrderSide\<close>, \<open>OrderType\<close> and the record \<open>Order\<close> are
  not among the sources.  The exchanges are the three venues of the repository; an
  \<open>Order\<close> keeps the attributes that the cache and the execution management system read.
\<close>

datatype ExchangeType = BINANCE | BYBIT | OKX

datatype OrderSide = BUY | SELL

datatype OrderType = LIMIT | MARKET

record Order =
  uuid :: string
  symbol :: string
  exchange :: ExchangeType
  status :: OrderStatus
  timestamp :: int
  side :: OrderSide
  amount :: rat
  filled :: rat
  remaining :: rat
  success :: bool

text \<open>
  Modelled from the spec: the derived predicate \<open>Order.is_closed\<close> holds for the statuses
  filled, canceled, failed and expired.
\<close>

definition is_closed :: "Order \<Rightarrow> bool" where
  "is_closed order \<longleftrightarrow> status order \<in> {FILLED, CANCELED, FAILED, EXPIRED}"

text \<open>
  Modelled from the spec: \<open>AlgoOrderStatus\<close> and \<open>AlgoOrder\<close> are not among the sources.
  The members of \<open>AlgoOrderStatus\<close> carry the prefix \<open>ALGO_\<close>, four of their names being
  members of \<open>OrderStatus\<close> too.
\<close>

datatype AlgoOrderStatus =
  ALGO_INITIALIZED | ALGO_RUNNING | ALGO_FINISHED | ALGO_CANCELING | ALGO_CANCELED
  | ALGO_FAILED

record AlgoOrder =
  algo_uuid :: string
  algo_symbol :: string
  algo_status :: AlgoOrderStatus
  algo_timestamp :: int
  algo_orders :: "string list"

text \<open>\<open>_order_initialized\<close> and \<open>_order_status_update\<close> take either kind of order.\<close>

datatype cached_order = Plain Order | Algo AlgoOrder

record BookL1 =
  bid :: rat
  ask :: rat

section \<open>The cache (\<open>tradebot/core/cache.py\<close>)\<close>

text \<open>
  The in-memory state of \<open>AsyncCache\<close>.  A dictionary is a map, a \<open>defaultdict(set)\<close> a
  function into sets with the empty set as default.  \<open>error_log\<close> holds the records that
  the cache has written to its logger at error level, each an invalid transition (previous
  status, new status).  \<open>position_updated\<close> holds the orders of the debug records
  \<open>POSITION UPDATED\<close>, each of which is followed by a call of \<open>_apply\<close> with that order;
  the other messages at debug level are not kept.  The type \<open>'p\<close> is that of
  \<open>SpotPosition\<close>, which is not among the sources.
\<close>

record 'p AsyncCache =
  mem_closed_orders :: "string \<rightharpoonup> bool"
  mem_orders :: "string \<rightharpoonup> Order"
  mem_algo_orders :: "string \<rightharpoonup> AlgoOrder"
  mem_open_orders :: "ExchangeType \<Rightarrow> string set"
  mem_symbol_open_orders :: "string \<Rightarrow> string set"
  mem_symbol_orders :: "string \<Rightarrow> string set"
  mem_spot_positions :: "string \<rightharpoonup> 'p"
  bookl1_cache :: "string \<rightharpoonup> BookL1"
  expire_time :: int
  error_log :: "(OrderStatus \<times> OrderStatus) list"
  position_updated :: "Order list"

text \<open>The state built by \<open>__init__\<close>.\<close>

definition init_cache :: "int \<Rightarrow> 'p AsyncCache" where
  "init_cache expire =
     \<lparr>mem_closed_orders = Map.empty, mem_orders = Map.empty, mem_algo_orders = Map.empty,
      mem_open_orders = (\<lambda>_. {}), mem_symbol_open_orders = (\<lambda>_. {}),
      mem_symbol_orders = (\<lambda>_. {}), mem_spot_positions = Map.empty,
      bookl1_cache = Map.empty, expire_time = expire, error_log = [],
      position_updated = []\<rparr>"

definition bookl1 :: "'p AsyncCache \<Rightarrow> string \<Rightarrow> BookL1 option" where
  "bookl1 c symb = bookl1_cache c symb"

text \<open>
  \<open>_cleanup_expired_data\<close>; \<open>now\<close> is the value of \<open>self._clock.timestamp_ms()\<close>.  The test
  of the two list comprehensions is on the timestamp alone; the expired uuids leave
  \<open>_mem_orders\<close>, \<open>_mem_closed_orders\<close> and every set of \<open>_mem_symbol_orders\<close>.
\<close>

definition expired_order :: "'p AsyncCache \<Rightarrow> int \<Rightarrow> string \<Rightarrow> bool" where
  "expired_order c expire_before u =
     (case mem_orders c u of None \<Rightarrow> False | Some order \<Rightarrow> timestamp order < expire_before)"

definition expired_algo_order :: "'p AsyncCache \<Rightarrow> int \<Rightarrow> string \<Rightarrow> bool" where
  "expired_algo_order c expire_before u =
     (case mem_algo_orders c u of
        None \<Rightarrow> False
      | Some algo_order \<Rightarrow> algo_timestamp algo_order < expire_before)"

definition cleanup_expired_data :: "int \<Rightarrow> 'p AsyncCache \<Rightarrow> 'p AsyncCache" where
  "cleanup_expired_data now c =
     (let expire_before = now - expire_time c * 1000
      in c\<lparr>mem_orders := (\<lambda>u. if expired_order c expire_before u then None else mem_orders c u),
           mem_closed_orders :=
             (\<lambda>u. if expired_order c expire_before u then None else mem_closed_orders c u),
           mem_symbol_orders :=
             (\<lambda>s. Set.filter (\<lambda>u. \<not> expired_order c expire_before u) (mem_symbol_orders c s)),
           mem_algo_orders :=
             (\<lambda>u. if expired_algo_order c expire_before u then None
                  else mem_algo_orders c u)\<rparr>)"

text \<open>
  \<open>_check_status_transition\<close> returns its verdict and the cache, whose logger has one more
  error record when the transition is refused.
\<close>

definition check_status_transition :: "'p AsyncCache \<Rightarrow> Order \<Rightarrow> bool \<times> 'p AsyncCache" where
  "check_status_transition c order =
     (case mem_orders c (uuid order) of
        None \<Rightarrow> (True, c)
      | Some previous_order \<Rightarrow>
          if status order \<notin> set (STATUS_TRANSITIONS (status previous_order))
          then (False, c\<lparr>error_log := error_log c @ [(status previous_order, status order)]\<rparr>)
          else (True, c))"

fun order_initialized :: "'p AsyncCache \<Rightarrow> cached_order \<Rightarrow> 'p AsyncCache" where
  "order_initialized c (Algo order) =
     c\<lparr>mem_algo_orders := (mem_algo_orders c)(algo_uuid order \<mapsto> order)\<rparr>"
| "order_initialized c (Plain order) =
     (case check_status_transition c order of
        (False, c') \<Rightarrow> c'
      | (True, c') \<Rightarrow>
          c'\<lparr>mem_orders := (mem_orders c')(uuid order \<mapsto> order),
             mem_open_orders :=
               (mem_open_orders c')
                 (exchange order := insert (uuid order) (mem_open_orders c' (exchange order))),
             mem_symbol_orders :=
               (mem_symbol_orders c')
                 (symbol order := insert (uuid order) (mem_symbol_orders c' (symbol order))),
             mem_symbol_open_orders :=
               (mem_symbol_open_orders c')
                 (symbol order :=
                    insert (uuid order) (mem_symbol_open_orders c' (symbol order)))\<rparr>)"

fun order_status_update :: "'p AsyncCache \<Rightarrow> cached_order \<Rightarrow> 'p AsyncCache" where
  "order_status_update c (Algo order) =
     c\<lparr>mem_algo_orders := (mem_algo_orders c)(algo_uuid order \<mapsto> order)\<rparr>"
| "order_status_update c (Plain order) =
     (case check_status_transition c order of
        (False, c') \<Rightarrow> c'
      | (True, c') \<Rightarrow>
          (let c'' = c'\<lparr>mem_orders := (mem_orders c')(uuid order \<mapsto> order)\<rparr>
           in if is_closed order
              then c''\<lparr>mem_open_orders :=
                         (mem_open_orders c'')
                           (exchange order := mem_open_orders c'' (exchange order) - {uuid order}),
                       mem_symbol_open_orders :=
                         (mem_symbol_open_orders c'')
                           (symbol order :=
                              mem_symbol_open_orders c'' (symbol order) - {uuid order})\<rparr>
              else c''))"

text \<open>
  \<open>_apply_spot_position\<close>.  Three things it calls are not among the sources and are
  parameters: \<open>new_position symbol exchange\<close> is the constructor
  \<open>SpotPosition(symbol=..., exchange=...)\<close>; \<open>stored symbol\<close> is what \<open>get_position\<close>
  finds once \<open>_mem_spot_positions\<close> has no entry for the symbol (the future positions
  and the external store); \<open>apply_order position order\<close> is the position after
  \<open>position._apply(order)\<close>.
\<close>

definition apply_spot_position ::
  "(string \<Rightarrow> ExchangeType \<Rightarrow> 'p) \<Rightarrow> (string \<Rightarrow> 'p option) \<Rightarrow> ('p \<Rightarrow> Order \<Rightarrow> 'p) \<Rightarrow>
   'p AsyncCache \<Rightarrow> Order \<Rightarrow> 'p AsyncCache" where
  "apply_spot_position new_position stored apply_order c order =
     (if (case mem_closed_orders c (uuid order) of None \<Rightarrow> False | Some b \<Rightarrow> b) then c
      else
        (let c1 =
               (case mem_spot_positions c (symbol order) of
                  Some _ \<Rightarrow> c
                | None \<Rightarrow>
                    (let position =
                           (case stored (symbol order) of
                              Some p \<Rightarrow> p
                            | None \<Rightarrow> new_position (symbol order) (exchange order))
                     in c\<lparr>mem_spot_positions :=
                            (mem_spot_positions c)(symbol order \<mapsto> position)\<rparr>));
             c2 =
               (if status order \<in> {FILLED, CANCELED}
                then c1\<lparr>mem_closed_orders := (mem_closed_orders c1)(uuid order \<mapsto> True)\<rparr>
                else c1)
         in if status order \<in> {FILLED, PARTIALLY_FILLED, CANCELED}
            then c2\<lparr>position_updated := position_updated c2 @ [order],
                    mem_spot_positions :=
                      (mem_spot_positions c2)
                        (symbol order :=
                           map_option (\<lambda>p. apply_order p order)
                             (mem_spot_positions c2 (symbol order)))\<rparr>
            else c2))"

text \<open>
  One delivery of a status update: \<open>_order_status_update\<close> followed by
  \<open>_apply_spot_position\<close>, both with the same order.
\<close>

definition deliver ::
  "(string \<Rightarrow> ExchangeType \<Rightarrow> 'p) \<Rightarrow> (string \<Rightarrow> 'p option) \<Rightarrow> ('p \<Rightarrow> Order \<Rightarrow> 'p) \<Rightarrow>
   'p AsyncCache \<Rightarrow> Order \<Rightarrow> 'p AsyncCache" where
  "deliver new_position stored apply_order c order =
     apply_spot_position new_position stored apply_order
       (order_status_update c (Plain order)) order"

text \<open>Sequences of calls of the three methods that write the order maps.\<close>

datatype cache_call =
  OrderInitialized cached_order | OrderStatusUpdate cached_order | CleanupExpiredData int

fun cache_step :: "'p AsyncCache \<Rightarrow> cache_call \<Rightarrow> 'p AsyncCache" where
  "cache_step c (OrderInitialized order) = order_initialized c order"
| "cache_step c (OrderStatusUpdate order) = order_status_update c order"
| "cache_step c (CleanupExpiredData now) = cleanup_expired_data now c"

definition run_calls :: "'p AsyncCache \<Rightarrow> cache_call list \<Rightarrow> 'p AsyncCache" where
  "run_calls c calls = foldl cache_step c calls"

fun is_cleanup :: "cache_call \<Rightarrow> bool" where
  "is_cleanup (CleanupExpiredData _) = True"
| "is_cleanup _ = False"

text \<open>\<open>_order_initialized\<close> is called with an order that is not closed, or an algo order.\<close>

fun initialized_open :: "cache_call \<Rightarrow> bool" where
  "initialized_open (OrderInitialized (Plain order)) = (\<not> is_closed order)"
| "initialized_open _ = True"

section \<open>The execution management system (\<open>tradebot/base/ems.py\<close>)\<close>

text \<open>\<open>_price_to_precision\<close>: as \<open>_amount_to_precision\<close>, on \<open>market.precision.price\<close>.\<close>

definition price_to_precision ::
  "(string \<rightharpoonup> BaseMarket) \<Rightarrow> string \<Rightarrow> rat \<Rightarrow> rounding_mode \<Rightarrow> py_error + rat" where
  "price_to_precision market symb price mode =
     (case market symb of
        None \<Rightarrow> Inl KeyError
      | Some m \<Rightarrow> Inr (to_precision (precision_price m) price mode))"

text \<open>
  The step to which \<open>_amount_to_precision\<close> rounds: \<open>int(precision)\<close> when
  \<open>precision >= 1\<close>, else one unit of the last decimal place of \<open>precision\<close>.
\<close>

definition quantum :: "precision \<Rightarrow> rat" where
  "quantum p =
     (if 1 \<le> precision_value p then of_int (py_int (precision_value p))
      else 1 / 10 ^ places p)"

text \<open>
  \<open>_calculate_twap_orders\<close>.  \<open>duration\<close> and \<open>wait\<close> are floats.  The float floor division
  \<open>duration // wait\<close> is the floor of the quotient, and raises \<open>ZeroDivisionError\<close> on a zero
  divisor, as does the float division by \<open>interval\<close>.  \<open>base_amount\<close> is first the float
  \<open>float(total_amount) / interval\<close>, which \<open>_amount_to_precision\<close> reads through
  \<open>Decimal(str(base_amount))\<close>.  The \<open>Decimal\<close> floor division
  \<open>total_amount // base_amount\<close> raises on a zero divisor and truncates towards zero;
  \<open>[base_amount] * interval\<close> is empty for \<open>interval <= 0\<close>, and \<open>amount_list[-1]\<close> on the
  empty list raises \<open>IndexError\<close>.  The wait returned is a float quotient.
\<close>

definition calculate_twap_orders ::
  "float_ops \<Rightarrow> (string \<rightharpoonup> BaseMarket) \<Rightarrow> string \<Rightarrow> rat \<Rightarrow> rat \<Rightarrow> rat \<Rightarrow> rat \<Rightarrow>
   py_error + (rat list \<times> rat)" where
  "calculate_twap_orders fl market symb total_amount duration wait min_order_amount =
     (if total_amount = 0 then Inr ([], 0)
      else if total_amount < min_order_amount then Inr ([min_order_amount], 0)
      else if wait = 0 then Inl ZeroDivisionError
      else
        (let interval0 = (of_int \<lfloor>duration / wait\<rfloor> :: rat)
         in if interval0 = 0 then Inl ZeroDivisionError
            else
              (case amount_to_precision market symb
                      (fl_str fl (fl_div fl (fl_of_decimal fl total_amount) interval0)) Round of
                 Inl e \<Rightarrow> Inl e
               | Inr rounded \<Rightarrow>
                   (let base_amount = max min_order_amount rounded
                    in if base_amount = 0 then Inl ZeroDivisionError
                       else
                         (let interval = py_int (total_amount / base_amount);
                              remaining = total_amount - of_int interval * base_amount;
                              amount_list =
                                (if remaining < min_order_amount
                                 then (if interval \<le> 0 then Inl IndexError
                                       else Inr (replicate (nat interval - 1) base_amount
                                                 @ [base_amount + remaining]))
                                 else Inr (replicate (nat interval) base_amount @ [remaining]))
                          in case amount_list of
                               Inl e \<Rightarrow> Inl e
                             | Inr xs \<Rightarrow>
                                 if length xs = 0 then Inl ZeroDivisionError
                                 else Inr (xs, fl_div fl duration (of_nat (length xs))))))))"

text \<open>
  \<open>_cal_limit_order_price\<close>; \<open>book\<close> is the value of \<open>self._cache.bookl1(symbol)\<close>, and
  reading \<open>book.ask\<close> on \<open>None\<close> raises \<open>AttributeError\<close>.  The prices of the book and
  \<open>market.precision.price\<close> are floats, and \<open>_price_to_precision\<close> reads the price through
  \<open>Decimal(str(price))\<close>.
\<close>

definition cal_limit_order_price ::
  "float_ops \<Rightarrow> (string \<rightharpoonup> BaseMarket) \<Rightarrow> BookL1 option \<Rightarrow> string \<Rightarrow> OrderSide \<Rightarrow>
   BaseMarket \<Rightarrow> py_error + rat" where
  "cal_limit_order_price fl markets book symb sd market =
     (case book of
        None \<Rightarrow> Inl AttributeError
      | Some b \<Rightarrow>
          (let basis_point = fl_of_decimal fl (precision_value (precision_price market));
               price =
                 (if sd = BUY
                  then (if fl_sub fl (ask b) (bid b) > basis_point
                        then fl_add fl (bid b) basis_point else bid b)
                  else (if fl_sub fl (ask b) (bid b) > basis_point
                        then fl_sub fl (ask b) basis_point else ask b))
           in price_to_precision markets symb (fl_str fl price) Round))"

section \<open>Venue rules for the minimum order amount\<close>

text \<open>
  \<open>OkxExecutionManagementSystem._get_min_order_amount\<close> (\<open>nexustrader/exchange/okx/ems.py\<close>);
  \<open>market.limits.amount.min\<close> is a float, read through \<open>Decimal(str(amount))\<close>.
\<close>

definition okx_get_min_order_amount ::
  "float_ops \<Rightarrow> (string \<rightharpoonup> BaseMarket) \<Rightarrow> string \<Rightarrow> BaseMarket \<Rightarrow> py_error + rat" where
  "okx_get_min_order_amount fl markets symb market =
     amount_to_precision markets symb (fl_str fl (limits_amount_min market)) Ceil"

text \<open>
  \<open>BybitExecutionManagementSystem._get_min_order_amount\<close>
  (\<open>nexustrader/exchange/bybit/ems.py\<close>): the divisor is the float sum
  \<open>book.bid + book.ask\<close>, the quotient a float, and the larger of it and
  \<open>market.limits.amount.min\<close> is read through \<open>Decimal(str(amount))\<close>.
\<close>

definition bybit_get_min_order_amount ::
  "float_ops \<Rightarrow> (string \<rightharpoonup> BaseMarket) \<Rightarrow> 'p AsyncCache \<Rightarrow> string \<Rightarrow> BaseMarket \<Rightarrow>
   py_error + rat" where
  "bybit_get_min_order_amount fl markets c symb market =
     (case bookl1 c symb of
        None \<Rightarrow> Inl AttributeError
      | Some book \<Rightarrow>
          if fl_add fl (bid book) (ask book) = 0 then Inl ZeroDivisionError
          else amount_to_precision markets symb
                 (fl_str fl (max (fl_div fl 6 (fl_add fl (bid book) (ask book)))
                               (limits_amount_min market))) Ceil)"

text \<open>The midpoint of the best bid and the best ask.\<close>

definition mid :: "BookL1 \<Rightarrow> rat" where
  "mid book = (bid book + ask book) / 2"

section \<open>Cancelling an order\<close>

text \<open>
  The state that \<open>_cancel_order\<close> reads and writes.  Modelled from the spec:
  \<open>OrderRegistry\<close> is not among the sources; \<open>registry\<close> is its map from uuid to the venue's
  order id, read by \<open>get_order_id\<close>.  \<open>msgbus\<close> is the sequence of messages sent, each with
  its endpoint; \<open>ems_errors\<close> holds the uuids of the error records of the logger;
  \<open>cancel_calls\<close> holds the calls made to a connector's \<open>cancel_order\<close> (symbol, order id).
\<close>

record 'p ems_state =
  cache :: "'p AsyncCache"
  registry :: "string \<rightharpoonup> string"
  msgbus :: "(string \<times> Order) list"
  ems_errors :: "string list"
  cancel_calls :: "(string \<times> string) list"

text \<open>
  \<open>_cancel_order\<close>.  \<open>connectors\<close> is \<open>self._private_connectors\<close>, each connector given by
  the order that its \<open>cancel_order\<close> returns for a symbol and an order id.  The test
  \<open>if order_id\<close> fails for \<open>None\<close> and for the empty string.  The result holds the new state
  and the value returned (\<open>None\<close> on the branch that only logs).
\<close>

definition cancel_order ::
  "('a \<rightharpoonup> (string \<Rightarrow> string \<Rightarrow> Order)) \<Rightarrow> 'p ems_state \<Rightarrow> string \<Rightarrow> string \<Rightarrow> 'a \<Rightarrow>
   py_error + ('p ems_state \<times> Order option)" where
  "cancel_order connectors st submit_uuid submit_symbol account_type =
     (case registry st submit_uuid of
        None \<Rightarrow> Inr (st\<lparr>ems_errors := ems_errors st @ [submit_uuid]\<rparr>, None)
      | Some order_id \<Rightarrow>
          if order_id = [] then Inr (st\<lparr>ems_errors := ems_errors st @ [submit_uuid]\<rparr>, None)
          else
            (case connectors account_type of
               None \<Rightarrow> Inl KeyError
             | Some connector_cancel \<Rightarrow>
                 (let order = (connector_cancel submit_symbol order_id)\<lparr>uuid := submit_uuid\<rparr>;
                      st1 = st\<lparr>cancel_calls := cancel_calls st @ [(submit_symbol, order_id)]\<rparr>
                  in if success order
                     then Inr (st1\<lparr>cache := order_status_update (cache st1) (Plain order),
                                    msgbus := msgbus st1 @ [(''canceling'', order)]\<rparr>,
                               Some order)
                     else Inr (st1\<lparr>msgbus := msgbus st1 @ [(''cancel_failed'', order)]\<rparr>,
                               Some order))))"

section \<open>The TWAP task (\<open>_twap_order\<close>)\<close>

text \<open>
  What the task sees of the child order that it watches.  \<open>self._cache.get_order(order_id)\<close>
  returns an order or \<open>None\<close>; on \<open>None\<close> the attribute \<open>bind_optional\<close> does not exist and
  the lookup raises \<open>AttributeError\<close>.  Of an order the view keeps the three values that
  the calls of \<open>bind_optional\<close> yield and the attribute \<open>remaining\<close> (\<open>Order\<close> is not among
  the sources).
\<close>

record order_view =
  view_is_opened :: bool
  view_on_flight :: bool
  view_is_closed :: bool
  view_remaining :: rat

text \<open>A child order handed to \<open>_create_order\<close>, and the parent as the task holds it.\<close>

record child_order =
  child_type :: OrderType
  child_amount :: rat
  child_price :: "rat option"

text \<open>
  The local state of the task.  \<open>committed\<close> holds the parent as it was at each call of
  \<open>_order_initialized\<close> and \<open>_order_status_update\<close>, in order; \<open>submitted\<close> the children
  handed to \<open>_create_order\<close>; \<open>cancel_sent\<close> the uuids handed to \<open>_cancel_order\<close>;
  \<open>slept\<close> the arguments of \<open>asyncio.sleep\<close>.
\<close>

record twap_state =
  amount_list :: "rat list"
  order_id :: "string option"
  algo_order :: AlgoOrder
  committed :: "AlgoOrder list"
  submitted :: "child_order list"
  cancel_sent :: "string list"
  elapsed_time :: rat
  slept :: "rat list"

text \<open>
  What the rest of the system does during one turn of the loop: either the task is
  cancelled while it waits (the event carries the open orders of the symbol at that
  moment), or the turn runs with the watched child as the cache shows it, the top of
  the book, and the connector's answer (success flag and uuid) to the child that the turn
  submits, if it submits one.
\<close>

datatype twap_event =
  CancelledError "string list"
  | Turn "order_view option" "BookL1 option" bool string

definition commit :: "twap_state \<Rightarrow> twap_state" where
  "commit s = s\<lparr>committed := committed s @ [algo_order s]\<rparr>"

definition set_status :: "AlgoOrderStatus \<Rightarrow> twap_state \<Rightarrow> twap_state" where
  "set_status st s = s\<lparr>algo_order := (algo_order s)\<lparr>algo_status := st\<rparr>\<rparr>"

definition append_child :: "string \<Rightarrow> twap_state \<Rightarrow> twap_state" where
  "append_child uid s =
     s\<lparr>order_id := Some uid,
       algo_order := (algo_order s)\<lparr>algo_orders := algo_orders (algo_order s) @ [uid]\<rparr>\<rparr>"

text \<open>\<open>if order_id\<close>: neither \<open>None\<close> nor the empty string.\<close>

definition watching :: "twap_state \<Rightarrow> string option" where
  "watching s =
     (case order_id s of None \<Rightarrow> None | Some oid \<Rightarrow> if oid = [] then None else Some oid)"

text \<open>
  One turn of the \<open>while amount_list\<close> loop.  The result is the new state and whether
  the turn ended in \<open>break\<close>; \<open>amount_list.pop()\<close> raises \<open>IndexError\<close> on the empty list,
  which the loop condition excludes.
\<close>

definition twap_turn ::
  "float_ops \<Rightarrow> (string \<rightharpoonup> BaseMarket) \<Rightarrow> string \<Rightarrow> OrderSide \<Rightarrow> BaseMarket \<Rightarrow> rat \<Rightarrow>
   rat \<Rightarrow> order_view option \<Rightarrow> BookL1 option \<Rightarrow> bool \<Rightarrow> string \<Rightarrow> twap_state \<Rightarrow>
   py_error + (bool \<times> twap_state)" where
  "twap_turn fl markets symb sd market min_order_amount wait seen book reply_success reply_uuid
     s =
     (case watching s of
        Some oid \<Rightarrow>
          (case seen of
             None \<Rightarrow> Inl AttributeError
           | Some v \<Rightarrow>
               if view_is_opened v \<and> \<not> view_on_flight v
               then Inr (False, s\<lparr>cancel_sent := cancel_sent s @ [oid]\<rparr>)
               else if view_is_closed v
               then
                 (let s1 = s\<lparr>order_id := None\<rparr>;
                      remaining = view_remaining v
                  in if remaining > min_order_amount
                     then
                       (let s2 = s1\<lparr>submitted :=
                                       submitted s1
                                       @ [\<lparr>child_type = MARKET, child_amount = remaining,
                                           child_price = None\<rparr>]\<rparr>
                        in if reply_success
                           then Inr (False, commit (append_child reply_uuid s2))
                           else Inr (True, commit (set_status ALGO_FAILED s2)))
                     else if amount_list s1 = [] then Inr (False, s1)
                     else
                       Inr (False,
                            s1\<lparr>amount_list :=
                                 butlast (amount_list s1)
                                 @ [last (amount_list s1) + remaining]\<rparr>))
               else
                 Inr (False,
                      s\<lparr>elapsed_time :=
                          fl_add fl (elapsed_time s) (fl_of_decimal fl (1 / 10))\<rparr>))
      | None \<Rightarrow>
          (case cal_limit_order_price fl markets book symb sd market of
             Inl e \<Rightarrow> Inl e
           | Inr price \<Rightarrow>
               if amount_list s = [] then Inl IndexError
               else
               (let amount = last (amount_list s);
                    s1 = s\<lparr>amount_list := butlast (amount_list s)\<rparr>;
                    child =
                      (if amount_list s1 \<noteq> []
                       then \<lparr>child_type = LIMIT, child_amount = amount, child_price = Some price\<rparr>
                       else \<lparr>child_type = MARKET, child_amount = amount, child_price = None\<rparr>);
                    s2 = s1\<lparr>submitted := submitted s1 @ [child]\<rparr>
                in if reply_success
                   then
                     (let s3 = commit (append_child reply_uuid s2)
                      in Inr (False,
                              s3\<lparr>slept := slept s3 @ [fl_sub fl wait (elapsed_time s3)],
                                 elapsed_time := 0\<rparr>))
                   else Inr (True, commit (set_status ALGO_FAILED s2)))))"

text \<open>
  How the loop is left: its condition fails, a turn ends in \<open>break\<close>, or
  \<open>asyncio.CancelledError\<close> is raised.
\<close>

datatype loop_exit = Exhausted | Broke | Cancelled "string list"

text \<open>
  The loop over the events of the run.  The result is \<open>None\<close> when the events end while
  the loop is still running.
\<close>

fun twap_loop ::
  "float_ops \<Rightarrow> (string \<rightharpoonup> BaseMarket) \<Rightarrow> string \<Rightarrow> OrderSide \<Rightarrow> BaseMarket \<Rightarrow> rat \<Rightarrow>
   rat \<Rightarrow> twap_event list \<Rightarrow> twap_state \<Rightarrow> (py_error + (loop_exit \<times> twap_state)) option" where
  "twap_loop fl markets symb sd market min_order_amount wait [] s =
     (if amount_list s = [] then Some (Inr (Exhausted, s)) else None)"
| "twap_loop fl markets symb sd market min_order_amount wait (ev # evs) s =
     (if amount_list s = [] then Some (Inr (Exhausted, s))
      else
        (case ev of
           CancelledError open_orders \<Rightarrow> Some (Inr (Cancelled open_orders, s))
         | Turn seen book reply_success reply_uuid \<Rightarrow>
             (case twap_turn fl markets symb sd market min_order_amount wait seen book
                     reply_success reply_uuid s of
                Inl e \<Rightarrow> Some (Inl e)
              | Inr (True, s') \<Rightarrow> Some (Inr (Broke, s'))
              | Inr (False, s') \<Rightarrow>
                  twap_loop fl markets symb sd market min_order_amount wait evs s')))"

text \<open>
  What follows the loop.  After the loop, however it was left short of an exception, the
  statements \<open>algo_order.status = AlgoOrderStatus.FINISHED\<close> and \<open>_order_status_update\<close> run;
  the handler of \<open>CancelledError\<close> records \<open>CANCELING\<close>, cancels every open order of the
  symbol and records \<open>CANCELED\<close>.
\<close>

fun after_loop :: "loop_exit \<Rightarrow> twap_state \<Rightarrow> twap_state" where
  "after_loop (Cancelled open_orders) s =
     (let s1 = commit (set_status ALGO_CANCELING s);
          s2 = s1\<lparr>cancel_sent := cancel_sent s1 @ open_orders\<rparr>
      in commit (set_status ALGO_CANCELED s2))"
| "after_loop _ s = commit (set_status ALGO_FINISHED s)"

text \<open>
  \<open>_twap_order\<close>.  \<open>min_order_amount\<close> is the value of the venue's
  \<open>_get_min_order_amount\<close>, \<open>now\<close> that of the clock.  The result is \<open>None\<close> when the task
  is still running at the end of the events.
\<close>

definition twap_order ::
  "float_ops \<Rightarrow> (string \<rightharpoonup> BaseMarket) \<Rightarrow> string \<Rightarrow> string \<Rightarrow> OrderSide \<Rightarrow> rat \<Rightarrow> rat \<Rightarrow>
   rat \<Rightarrow> rat \<Rightarrow> int \<Rightarrow> twap_event list \<Rightarrow> (py_error + twap_state) option" where
  "twap_order fl markets symb submit_uuid sd total_amount duration wait min_order_amount now
     evs =
     (case markets symb of
        None \<Rightarrow> Some (Inl KeyError)
      | Some market \<Rightarrow>
          (let algo =
                 \<lparr>algo_uuid = submit_uuid, algo_symbol = symb, algo_status = ALGO_RUNNING,
                  algo_timestamp = now, algo_orders = []\<rparr>
           in case calculate_twap_orders fl markets symb total_amount duration wait
                     min_order_amount of
                Inl e \<Rightarrow> Some (Inl e)
              | Inr (amounts, wait') \<Rightarrow>
                  (case twap_loop fl markets symb sd market min_order_amount wait' evs
                          \<lparr>amount_list = amounts, order_id = None, algo_order = algo,
                           committed = [algo], submitted = [], cancel_sent = [],
                           elapsed_time = 0, slept = []\<rparr> of
                     None \<Rightarrow> None
                   | Some (Inl e) \<Rightarrow> Some (Inl e)
                   | Some (Inr (how, s)) \<Rightarrow> Some (Inr (after_loop how s)))))"

text \<open>The status that the cache holds for the parent: that of the last commit.\<close>

definition final_status :: "twap_state \<Rightarrow> AlgoOrderStatus" where
  "final_status s = algo_status (last (committed s))"

section \<open>Properties of the order maps, as predicates\<close>

text \<open>Whether \<open>_check_status_transition\<close> lets the order through.\<close>

definition accepted :: "'p AsyncCache \<Rightarrow> Order \<Rightarrow> bool" where
  "accepted c order = fst (check_status_transition c order)"

text \<open>Every uuid of an open set is a key of \<open>_mem_orders\<close>.\<close>

definition open_within_orders :: "'p AsyncCache \<Rightarrow> bool" where
  "open_within_orders c \<longleftrightarrow>
     (\<forall>e. mem_open_orders c e \<subseteq> dom (mem_orders c))
     \<and> (\<forall>s. mem_symbol_open_orders c s \<subseteq> dom (mem_orders c))"

text \<open>
  No order of \<open>_mem_orders\<close> that is closed has its uuid in the open set of its exchange or
  of its symbol.
\<close>

definition closed_not_open :: "'p AsyncCache \<Rightarrow> bool" where
  "closed_not_open c \<longleftrightarrow>
     (\<forall>u order. mem_orders c u = Some order \<and> is_closed order \<longrightarrow>
        u \<notin> mem_open_orders c (exchange order)
        \<and> u \<notin> mem_symbol_open_orders c (symbol order))"

section \<open>The slices of a TWAP order, in the words of the specification\<close>

text \<open>
  The base amount with the quotient of the code: the larger of the minimum order amount
  and the float quotient of the total and \<open>\<lfloor>duration / wait\<rfloor>\<close> as \<open>str\<close> prints it, rounded
  to the amount precision.
\<close>

definition base_amount_of ::
  "float_ops \<Rightarrow> precision \<Rightarrow> rat \<Rightarrow> rat \<Rightarrow> rat \<Rightarrow> rat \<Rightarrow> rat" where
  "base_amount_of fl p tot duration wait mn =
     max mn
       (to_precision p
          (fl_str fl (fl_div fl (fl_of_decimal fl tot) (of_int \<lfloor>duration / wait\<rfloor>))) Round)"

text \<open>
  The base amount with the exact quotient: the larger of the minimum order amount and the
  total divided by \<open>\<lfloor>duration / wait\<rfloor>\<close>, rounded to the amount precision.
\<close>

definition twap_base :: "precision \<Rightarrow> rat \<Rightarrow> rat \<Rightarrow> rat \<Rightarrow> rat \<Rightarrow> rat" where
  "twap_base p tot duration wait mn =
     max mn (to_precision p (tot / of_int \<lfloor>duration / wait\<rfloor>) Round)"

text \<open>
  With \<open>interval = \<lfloor>total / base\<rfloor>\<close> and \<open>r = total - interval * base\<close>: when \<open>r\<close> is below
  the minimum, \<open>interval\<close> slices of \<open>base\<close> of which the last is increased by \<open>r\<close>; else
  \<open>interval\<close> slices of \<open>base\<close> and one more slice of \<open>r\<close>.
\<close>

definition twap_slices :: "rat \<Rightarrow> rat \<Rightarrow> rat \<Rightarrow> rat list" where
  "twap_slices tot base mn =
     (let interval = \<lfloor>tot / base\<rfloor>;
          r = tot - of_int interval * base
      in if r < mn then replicate (nat interval - 1) base @ [base + r]
         else replicate (nat interval) base @ [r])"

text \<open>
  The open sets hold exactly the uuids of the orders of \<open>_mem_orders\<close> that are not closed,
  each under the exchange and the symbol of its order.
\<close>

definition open_sets_exact :: "'p AsyncCache \<Rightarrow> bool" where
  "open_sets_exact c \<longleftrightarrow>
     (\<forall>u e. u \<in> mem_open_orders c e \<longleftrightarrow>
        (\<exists>order. mem_orders c u = Some order \<and> e = exchange order \<and> \<not> is_closed order))
     \<and> (\<forall>u s. u \<in> mem_symbol_open_orders c s \<longleftrightarrow>
        (\<exists>order. mem_orders c u = Some order \<and> s = symbol order \<and> \<not> is_closed order))"

text \<open>The order has the exchange and the symbol of the order stored under its uuid, if any.\<close>

definition same_venue :: "'p AsyncCache \<Rightarrow> Order \<Rightarrow> bool" where
  "same_venue c order =
     (case mem_orders c (uuid order) of
        None \<Rightarrow> True
      | Some previous_order \<Rightarrow>
          exchange previous_order = exchange order \<and> symbol previous_order = symbol order)"

text \<open>
  A regular call: \<open>_order_initialized\<close> receives an order that is not closed,
  \<open>_order_status_update\<close> of an uuid unknown to \<open>_mem_orders\<close> carries a closed status, an
  order keeps its exchange and symbol, and \<open>_cleanup_expired_data\<close> runs when every order old
  enough to be removed is closed.  A regular run makes regular calls only.
\<close>

fun regular_call :: "'p AsyncCache \<Rightarrow> cache_call \<Rightarrow> bool" where
  "regular_call c (OrderInitialized (Plain order)) = (\<not> is_closed order \<and> same_venue c order)"
| "regular_call c (OrderStatusUpdate (Plain order)) =
     (same_venue c order \<and> (mem_orders c (uuid order) = None \<longrightarrow> is_closed order))"
| "regular_call c (CleanupExpiredData now) =
     (\<forall>u order. mem_orders c u = Some order
         \<and> timestamp order < now - expire_time c * 1000 \<longrightarrow> is_closed order)"
| "regular_call c _ = True"

fun regular_run :: "'p AsyncCache \<Rightarrow> cache_call list \<Rightarrow> bool" where
  "regular_run c [] = True"
| "regular_run c (x # xs) = (regular_call c x \<and> regular_run (cache_step c x) xs)"

text \<open>The idempotency guard: \<open>self._mem_closed_orders.get(uuid, False)\<close>.\<close>

definition flagged :: "'p AsyncCache \<Rightarrow> string \<Rightarrow> bool" where
  "flagged c u = (case mem_closed_orders c u of None \<Rightarrow> False | Some b \<Rightarrow> b)"

section \<open>Example inputs\<close>

definition btc_market :: BaseMarket where
  "btc_market =
     \<lparr>precision_amount = \<lparr>coeff = 1, places = 3\<rparr>,
      precision_price = \<lparr>coeff = 1, places = 1\<rparr>,
      limits_amount_min = to_double (1 / 1000)\<rparr>"

definition markets1 :: "string \<rightharpoonup> BaseMarket" where
  "markets1 = [''BTCUSDT'' \<mapsto> btc_market]"

definition open_order1 :: Order where
  "open_order1 =
     \<lparr>uuid = ''u1'', symbol = ''BTCUSDT'', exchange = BINANCE, status = PENDING,
      timestamp = 0, side = BUY, amount = 1, filled = 0, remaining = 1, success = True\<rparr>"

definition filled_order1 :: Order where
  "filled_order1 = open_order1\<lparr>status := FILLED, filled := 1, remaining := 0\<rparr>"

definition moved_order1 :: Order where
  "moved_order1 = filled_order1\<lparr>exchange := OKX\<rparr>"

definition accepted_order2 :: Order where
  "accepted_order2 = open_order1\<lparr>uuid := ''u2'', status := ACCEPTED\<rparr>"

definition filled_order3 :: Order where
  "filled_order3 = filled_order1\<lparr>uuid := ''u3''\<rparr>"

definition cache0 :: "unit AsyncCache" where
  "cache0 = init_cache 3600"

section \<open>Example inputs of the execution management system\<close>

definition book1 :: BookL1 where
  "book1 = \<lparr>bid = 99, ask = 101\<rparr>"

definition cache_with_book :: "unit AsyncCache" where
  "cache_with_book = cache0\<lparr>bookl1_cache := [''BTCUSDT'' \<mapsto> book1]\<rparr>"

text \<open>A book at the floats \<open>0.0399\<close> and \<open>0.0401\<close>, and a market with a lot step of 0.005.\<close>

definition book2 :: BookL1 where
  "book2 = \<lparr>bid = to_double (399 / 10000), ask = to_double (401 / 10000)\<rparr>"

definition cache_with_book2 :: "unit AsyncCache" where
  "cache_with_book2 = cache0\<lparr>bookl1_cache := [''BTCUSDT'' \<mapsto> book2]\<rparr>"

definition coarse_market :: BaseMarket where
  "coarse_market =
     \<lparr>precision_amount = \<lparr>coeff = 5, places = 3\<rparr>,
      precision_price = \<lparr>coeff = 1, places = 1\<rparr>,
      limits_amount_min = to_double (1 / 1000)\<rparr>"

definition ems0 :: "unit ems_state" where
  "ems0 =
     \<lparr>cache = order_initialized cache0 (Plain open_order1),
      registry = [''u1'' \<mapsto> ''V1''], msgbus = [], ems_errors = [], cancel_calls = []\<rparr>"

definition canceling_reply :: "string \<Rightarrow> string \<Rightarrow> Order" where
  "canceling_reply s oid = open_order1\<lparr>uuid := [], status := CANCELING\<rparr>"

definition failed_reply :: "string \<Rightarrow> string \<Rightarrow> Order" where
  "failed_reply s oid = open_order1\<lparr>uuid := [], status := FAILED, success := False\<rparr>"

text \<open>
  \<open>SpotPosition\<close> and its method \<open>_apply\<close> are not among the sources.  The examples are
  about the calls of \<open>_apply\<close>, not about what it computes: their positions carry no data.
\<close>

definition unit_new :: "string \<Rightarrow> ExchangeType \<Rightarrow> unit" where
  "unit_new s e = ()"

definition unit_stored :: "string \<Rightarrow> unit option" where
  "unit_stored s = None"

definition unit_apply :: "unit \<Rightarrow> Order \<Rightarrow> unit" where
  "unit_apply position order = ()"

definition partial_order1 :: Order where
  "partial_order1 =
     open_order1\<lparr>status := PARTIALLY_FILLED, filled := 1 / 2, remaining := 1 / 2\<rparr>"

definition cache_pending :: "unit AsyncCache" where
  "cache_pending = order_initialized (init_cache 3600) (Plain open_order1)"

text \<open>
  A run of the TWAP task in which the connector refuses the first child: the task is not
  watching an order, the book is \<open>book1\<close>, and \<open>create_order\<close> answers \<open>success = false\<close>.
\<close>

definition failing_run :: "twap_event list" where
  "failing_run = [Turn None (Some book1) False ''c1'']"

section \<open>Precision rounding at a step of 0.001\<close>

lemma to_precision_milli:
  "to_precision \<lparr>coeff = 1, places = 3\<rparr> (15 / 10000) Round = 2 / 1000"
  "to_precision \<lparr>coeff = 1, places = 3\<rparr> (15 / 10000) Ceil = 2 / 1000"
  "to_precision \<lparr>coeff = 1, places = 3\<rparr> (15 / 10000) Floor = 1 / 1000"
  by code_simp+

text \<open>
  Claim C9.  With an amount precision of 0.001, \<open>_amount_to_precision\<close> maps 0.0015 to
  exactly 0.002 in mode round (half up), to exactly 0.002 in mode ceil and to exactly
  0.001 in mode floor.
\<close>

theorem amount_to_precision_0015:
  assumes "market symb = Some m" and "precision_amount m = \<lparr>coeff = 1, places = 3\<rparr>"
  shows "amount_to_precision market symb (15 / 10000) Round = Inr (2 / 1000)
       \<and> amount_to_precision market symb (15 / 10000) Ceil = Inr (2 / 1000)
       \<and> amount_to_precision market symb (15 / 10000) Floor = Inr (1 / 1000)"
  unfolding amount_to_precision_def using assms
  by (simp only: option.case to_precision_milli simp_thms)

theorem amount_to_precision_0015_witness:
  "markets1 ''BTCUSDT'' = Some btc_market
   \<and> precision_amount btc_market = \<lparr>coeff = 1, places = 3\<rparr>
   \<and> amount_to_precision markets1 ''BTCUSDT'' (15 / 10000) Round = Inr (2 / 1000)
   \<and> amount_to_precision markets1 ''BTCUSDT'' (15 / 10000) Ceil = Inr (2 / 1000)
   \<and> amount_to_precision markets1 ''BTCUSDT'' (15 / 10000) Floor = Inr (1 / 1000)"
proof -
  have h1: "markets1 ''BTCUSDT'' = Some btc_market"
    by (simp add: markets1_def)
  have h2: "precision_amount btc_market = \<lparr>coeff = 1, places = 3\<rparr>"
    by (simp add: btc_market_def)
  from amount_to_precision_0015 [of markets1 "''BTCUSDT''" btc_market, OF h1 h2] h1 h2 show ?thesis
    by (simp only: simp_thms)
qed

section \<open>The fields of the cache after each call\<close>

lemma update_mem_orders:
  "mem_orders (order_status_update c (Plain order)) =
     (if accepted c order then (mem_orders c)(uuid order \<mapsto> order) else mem_orders c)"
  by (simp add: accepted_def check_status_transition_def Let_def split: option.splits)

lemma update_open_orders:
  "mem_open_orders (order_status_update c (Plain order)) =
     (if accepted c order \<and> is_closed order
      then (mem_open_orders c)(exchange order := mem_open_orders c (exchange order) - {uuid order})
      else mem_open_orders c)"
  by (simp add: accepted_def check_status_transition_def Let_def split: option.splits)

lemma update_symbol_open_orders:
  "mem_symbol_open_orders (order_status_update c (Plain order)) =
     (if accepted c order \<and> is_closed order
      then (mem_symbol_open_orders c)
             (symbol order := mem_symbol_open_orders c (symbol order) - {uuid order})
      else mem_symbol_open_orders c)"
  by (simp add: accepted_def check_status_transition_def Let_def split: option.splits)

lemma initialized_mem_orders:
  "mem_orders (order_initialized c (Plain order)) =
     (if accepted c order then (mem_orders c)(uuid order \<mapsto> order) else mem_orders c)"
  by (simp add: accepted_def check_status_transition_def Let_def split: option.splits)

lemma initialized_open_orders:
  "mem_open_orders (order_initialized c (Plain order)) =
     (if accepted c order
      then (mem_open_orders c)
             (exchange order := insert (uuid order) (mem_open_orders c (exchange order)))
      else mem_open_orders c)"
  by (simp add: accepted_def check_status_transition_def Let_def split: option.splits)

lemma initialized_symbol_open_orders:
  "mem_symbol_open_orders (order_initialized c (Plain order)) =
     (if accepted c order
      then (mem_symbol_open_orders c)
             (symbol order := insert (uuid order) (mem_symbol_open_orders c (symbol order)))
      else mem_symbol_open_orders c)"
  by (simp add: accepted_def check_status_transition_def Let_def split: option.splits)

lemmas plain_fields =
  update_mem_orders update_open_orders update_symbol_open_orders
  initialized_mem_orders initialized_open_orders initialized_symbol_open_orders

lemma cleanup_mem_orders:
  "mem_orders (cleanup_expired_data now c) u =
     (case mem_orders c u of
        None \<Rightarrow> None
      | Some order \<Rightarrow> if timestamp order < now - expire_time c * 1000 then None else Some order)"
  by (simp add: cleanup_expired_data_def expired_order_def Let_def split: option.splits)

lemma cleanup_mem_algo_orders:
  "mem_algo_orders (cleanup_expired_data now c) u =
     (case mem_algo_orders c u of
        None \<Rightarrow> None
      | Some order \<Rightarrow>
          if algo_timestamp order < now - expire_time c * 1000 then None else Some order)"
  by (simp add: cleanup_expired_data_def expired_algo_order_def Let_def split: option.splits)

lemma cleanup_open_sets:
  "mem_open_orders (cleanup_expired_data now c) = mem_open_orders c"
  "mem_symbol_open_orders (cleanup_expired_data now c) = mem_symbol_open_orders c"
  by (simp_all add: cleanup_expired_data_def Let_def)

section \<open>The open sets and the order map\<close>

lemma open_within_step:
  assumes "open_within_orders c" and "\<not> is_cleanup x"
  shows "open_within_orders (cache_step c x)"
proof (cases x)
  case (OrderInitialized y)
  show ?thesis
  proof (cases y)
    case (Plain order)
    with assms(1) show ?thesis
      unfolding open_within_orders_def OrderInitialized Plain cache_step.simps plain_fields
      by (auto split: if_splits)
  next
    case (Algo a)
    with assms(1) OrderInitialized show ?thesis
      by (simp add: open_within_orders_def)
  qed
next
  case (OrderStatusUpdate y)
  show ?thesis
  proof (cases y)
    case (Plain order)
    with assms(1) show ?thesis
      unfolding open_within_orders_def OrderStatusUpdate Plain cache_step.simps plain_fields
      by (auto split: if_splits)
  next
    case (Algo a)
    with assms(1) OrderStatusUpdate show ?thesis
      by (simp add: open_within_orders_def)
  qed
next
  case (CleanupExpiredData now)
  with assms(2) show ?thesis by simp
qed

lemma closed_not_open_step:
  assumes "closed_not_open c" and "initialized_open x"
  shows "closed_not_open (cache_step c x)"
proof (cases x)
  case (OrderInitialized y)
  show ?thesis
  proof (cases y)
    case (Plain order)
    with assms OrderInitialized have "\<not> is_closed order" by simp
    with assms(1) show ?thesis
      unfolding closed_not_open_def OrderInitialized Plain cache_step.simps plain_fields
      by (auto split: if_splits) metis+
  next
    case (Algo a)
    with assms(1) OrderInitialized show ?thesis
      by (simp add: closed_not_open_def)
  qed
next
  case (OrderStatusUpdate y)
  show ?thesis
  proof (cases y)
    case (Plain order)
    with assms(1) show ?thesis
      unfolding closed_not_open_def OrderStatusUpdate Plain cache_step.simps plain_fields
      by (auto split: if_splits) metis+
  next
    case (Algo a)
    with assms(1) OrderStatusUpdate show ?thesis
      by (simp add: closed_not_open_def)
  qed
next
  case (CleanupExpiredData now)
  with assms(1) show ?thesis
    by (auto simp: closed_not_open_def cleanup_mem_orders cleanup_open_sets
        split: option.splits if_splits)
qed

lemma closed_not_open_run:
  "closed_not_open c \<Longrightarrow> \<forall>x \<in> set calls. initialized_open x \<Longrightarrow>
   closed_not_open (run_calls c calls)"
  unfolding run_calls_def
  by (induction calls arbitrary: c) (simp_all add: closed_not_open_step)

lemma open_within_run:
  "open_within_orders c \<Longrightarrow> \<forall>x \<in> set calls. \<not> is_cleanup x \<Longrightarrow>
   open_within_orders (run_calls c calls)"
  unfolding run_calls_def
  by (induction calls arbitrary: c) (simp_all add: open_within_step)

lemma closed_no_successor: "is_closed p \<Longrightarrow> STATUS_TRANSITIONS (status p) = []"
  by (cases "status p") (simp_all add: is_closed_def)

lemma accepted_iff:
  "accepted c order \<longleftrightarrow>
     (case mem_orders c (uuid order) of
        None \<Rightarrow> True
      | Some p \<Rightarrow> status order \<in> set (STATUS_TRANSITIONS (status p)))"
  by (simp add: accepted_def check_status_transition_def split: option.splits)

lemma accepted_prior_open:
  "accepted c order \<Longrightarrow> mem_orders c (uuid order) = Some p \<Longrightarrow> \<not> is_closed p"
  using closed_no_successor [of p] by (auto simp: accepted_iff)

lemma exact_initialized:
  assumes "open_sets_exact c" and "\<not> is_closed order" and "same_venue c order"
  shows "open_sets_exact (order_initialized c (Plain order))"
proof (cases "accepted c order")
  case False
  with assms(1) show ?thesis
    unfolding open_sets_exact_def plain_fields by simp
next
  case True
  have prior: "\<And>p. mem_orders c (uuid order) = Some p \<Longrightarrow>
      exchange p = exchange order \<and> symbol p = symbol order \<and> \<not> is_closed p"
    using assms(3) accepted_prior_open [OF True] by (auto simp: same_venue_def)
  from assms(1,2) True prior show ?thesis
    unfolding open_sets_exact_def plain_fields
    by (auto split: if_splits)
qed

lemma exact_update:
  assumes "open_sets_exact c" and "same_venue c order"
    and "mem_orders c (uuid order) = None \<longrightarrow> is_closed order"
  shows "open_sets_exact (order_status_update c (Plain order))"
proof (cases "accepted c order")
  case False
  with assms(1) show ?thesis
    unfolding open_sets_exact_def plain_fields by simp
next
  case True
  have prior: "\<And>p. mem_orders c (uuid order) = Some p \<Longrightarrow>
      exchange p = exchange order \<and> symbol p = symbol order \<and> \<not> is_closed p"
    using assms(2) accepted_prior_open [OF True] by (auto simp: same_venue_def)
  from assms(1,3) True prior show ?thesis
    unfolding open_sets_exact_def plain_fields
    by (auto split: if_splits)
qed

lemma exact_cleanup:
  assumes "open_sets_exact c" and "regular_call c (CleanupExpiredData now)"
  shows "open_sets_exact (cleanup_expired_data now c)"
  using assms
  unfolding open_sets_exact_def cleanup_open_sets cleanup_mem_orders regular_call.simps
  by (auto split: option.splits if_splits)

lemma exact_step:
  assumes "open_sets_exact c" and "regular_call c x"
  shows "open_sets_exact (cache_step c x)"
proof (cases x)
  case (OrderInitialized y)
  show ?thesis
  proof (cases y)
    case (Plain order)
    with assms OrderInitialized show ?thesis
      by (simp add: exact_initialized del: order_initialized.simps)
  next
    case (Algo a)
    with assms(1) OrderInitialized show ?thesis by (simp add: open_sets_exact_def)
  qed
next
  case (OrderStatusUpdate y)
  show ?thesis
  proof (cases y)
    case (Plain order)
    with assms OrderStatusUpdate show ?thesis
      by (simp add: exact_update del: order_status_update.simps)
  next
    case (Algo a)
    with assms(1) OrderStatusUpdate show ?thesis by (simp add: open_sets_exact_def)
  qed
next
  case (CleanupExpiredData now)
  with assms show ?thesis by (simp add: exact_cleanup del: regular_call.simps)
qed

lemma exact_run:
  "open_sets_exact c \<Longrightarrow> regular_run c calls \<Longrightarrow> open_sets_exact (run_calls c calls)"
  unfolding run_calls_def
  by (induction calls arbitrary: c) (simp_all add: exact_step)

lemma exact_init: "open_sets_exact (init_cache e)"
  by (simp add: open_sets_exact_def init_cache_def)

lemma open_within_init: "open_within_orders (init_cache e)"
  by (simp add: open_within_orders_def init_cache_def)

lemma closed_not_open_init: "closed_not_open (init_cache e)"
  by (simp add: closed_not_open_def init_cache_def)

text \<open>
  Claim C1, amended.  From the empty cache, after every regular run of calls of
  \<open>_order_initialized\<close>, \<open>_order_status_update\<close> and \<open>_cleanup_expired_data\<close>, every uuid of
  \<open>_mem_open_orders[exchange]\<close> and of \<open>_mem_symbol_open_orders[symbol]\<close> is a key of
  \<open>_mem_orders\<close>, and a uuid belongs to those sets exactly when the status of its order is
  not closed.  Of that, two parts hold for more runs: when \<open>_order_initialized\<close> only
  receives orders that are not closed, no closed order of \<open>_mem_orders\<close> has its uuid in the
  open set of its exchange or of its symbol; and in a run without
  \<open>_cleanup_expired_data\<close>, every uuid of the open sets is a key of \<open>_mem_orders\<close>.
\<close>

theorem open_sets_after_calls:
  "(regular_run (init_cache e :: 'p AsyncCache) calls \<longrightarrow>
      open_sets_exact (run_calls (init_cache e :: 'p AsyncCache) calls))
   \<and> ((\<forall>x \<in> set calls. initialized_open x) \<longrightarrow>
      closed_not_open (run_calls (init_cache e :: 'p AsyncCache) calls))
   \<and> ((\<forall>x \<in> set calls. \<not> is_cleanup x) \<longrightarrow>
      open_within_orders (run_calls (init_cache e :: 'p AsyncCache) calls))"
  using exact_run [OF exact_init] closed_not_open_run [OF closed_not_open_init]
    open_within_run [OF open_within_init]
  by blast

theorem open_sets_after_calls_witness:
  "regular_run cache0
     [OrderInitialized (Plain open_order1), OrderStatusUpdate (Plain filled_order1),
      CleanupExpiredData 4000000]
   \<and> open_sets_exact
       (run_calls cache0
          [OrderInitialized (Plain open_order1), OrderStatusUpdate (Plain filled_order1),
           CleanupExpiredData 4000000])
   \<and> initialized_open (OrderInitialized (Plain open_order1))
   \<and> initialized_open (OrderStatusUpdate (Plain filled_order1))
   \<and> initialized_open (CleanupExpiredData 4000000)
   \<and> closed_not_open
       (run_calls cache0
          [OrderInitialized (Plain open_order1), OrderStatusUpdate (Plain filled_order1),
           CleanupExpiredData 4000000])
   \<and> \<not> is_cleanup (OrderInitialized (Plain open_order1))
   \<and> \<not> is_cleanup (OrderStatusUpdate (Plain filled_order1))
   \<and> open_within_orders
       (run_calls cache0
          [OrderInitialized (Plain open_order1), OrderStatusUpdate (Plain filled_order1)])"
proof -
  have h0: "regular_run cache0
     [OrderInitialized (Plain open_order1), OrderStatusUpdate (Plain filled_order1),
      CleanupExpiredData 4000000]"
    by (simp add: cache0_def init_cache_def check_status_transition_def same_venue_def
        is_closed_def open_order1_def filled_order1_def)
  have h1: "\<forall>x \<in> set [OrderInitialized (Plain open_order1),
                       OrderStatusUpdate (Plain filled_order1),
                       CleanupExpiredData 4000000]. initialized_open x"
    by (simp add: is_closed_def open_order1_def)
  have h2: "\<forall>x \<in> set [OrderInitialized (Plain open_order1),
                       OrderStatusUpdate (Plain filled_order1)]. \<not> is_cleanup x"
    by simp
  note th1 = open_sets_after_calls
         [of 3600 "[OrderInitialized (Plain open_order1), OrderStatusUpdate (Plain filled_order1),
                    CleanupExpiredData 4000000]", where ?'p = unit]
  note th2 = open_sets_after_calls
         [of 3600 "[OrderInitialized (Plain open_order1), OrderStatusUpdate (Plain filled_order1)]",
          where ?'p = unit]
  have a: "open_sets_exact
       (run_calls cache0
          [OrderInitialized (Plain open_order1), OrderStatusUpdate (Plain filled_order1),
           CleanupExpiredData 4000000])"
    using th1 h0 unfolding cache0_def by blast
  have b: "closed_not_open
       (run_calls cache0
          [OrderInitialized (Plain open_order1), OrderStatusUpdate (Plain filled_order1),
           CleanupExpiredData 4000000])"
    using th1 h1 unfolding cache0_def by blast
  have c: "open_within_orders
       (run_calls cache0
          [OrderInitialized (Plain open_order1), OrderStatusUpdate (Plain filled_order1)])"
    using th2 h2 unfolding cache0_def by blast
  have d: "initialized_open (OrderInitialized (Plain open_order1))"
    "initialized_open (OrderStatusUpdate (Plain filled_order1))"
    "initialized_open (CleanupExpiredData 4000000)"
    "\<not> is_cleanup (OrderInitialized (Plain open_order1))"
    "\<not> is_cleanup (OrderStatusUpdate (Plain filled_order1))"
    by (simp_all add: is_closed_def open_order1_def)
  from h0 a b c d show ?thesis by blast
qed

text \<open>
  The claim as stated fails in four ways: an open order older than the expiry time is
  removed from \<open>_mem_orders\<close> and stays in the open sets; an update of an unknown uuid with
  a status that is not closed is stored and enters no open set; an order initialized with
  a closed status enters the open sets; an order that is closed by an update naming
  another exchange stays in the open set of the first exchange.
\<close>

theorem open_sets_counterexample:
  "''u1'' \<in> mem_open_orders
              (run_calls cache0 [OrderInitialized (Plain open_order1), CleanupExpiredData 4000000])
              BINANCE
   \<and> mem_orders
        (run_calls cache0 [OrderInitialized (Plain open_order1), CleanupExpiredData 4000000])
        ''u1'' = None
   \<and> mem_orders (run_calls cache0 [OrderStatusUpdate (Plain accepted_order2)]) ''u2''
       = Some accepted_order2
   \<and> \<not> is_closed accepted_order2
   \<and> ''u2'' \<notin> mem_open_orders (run_calls cache0 [OrderStatusUpdate (Plain accepted_order2)])
                 (exchange accepted_order2)
   \<and> mem_orders (run_calls cache0 [OrderInitialized (Plain filled_order3)]) ''u3''
       = Some filled_order3
   \<and> is_closed filled_order3
   \<and> ''u3'' \<in> mem_open_orders (run_calls cache0 [OrderInitialized (Plain filled_order3)])
                 (exchange filled_order3)
   \<and> mem_orders
        (run_calls cache0 [OrderInitialized (Plain open_order1), OrderStatusUpdate (Plain moved_order1)])
        ''u1'' = Some moved_order1
   \<and> is_closed moved_order1
   \<and> ''u1'' \<in> mem_open_orders
              (run_calls cache0
                 [OrderInitialized (Plain open_order1), OrderStatusUpdate (Plain moved_order1)])
              BINANCE"
  by (simp add: run_calls_def cache0_def init_cache_def check_status_transition_def
      cleanup_mem_orders cleanup_open_sets is_closed_def
      open_order1_def filled_order1_def accepted_order2_def filled_order3_def moved_order1_def)

section \<open>Eviction of expired orders\<close>

text \<open>
  Claim C2, amended.  \<open>_cleanup_expired_data\<close> removes an \<open>Order\<close> or an \<open>AlgoOrder\<close> from
  memory exactly when its timestamp is older than \<open>now\<close> minus \<open>expire_time\<close> (in ms),
  whatever its status; every other entry is left as it is.
\<close>

theorem cleanup_removes_by_timestamp:
  "mem_orders (cleanup_expired_data now c) u =
     (case mem_orders c u of
        None \<Rightarrow> None
      | Some order \<Rightarrow> if timestamp order < now - expire_time c * 1000 then None else Some order)
   \<and> mem_algo_orders (cleanup_expired_data now c) u =
     (case mem_algo_orders c u of
        None \<Rightarrow> None
      | Some order \<Rightarrow>
          if algo_timestamp order < now - expire_time c * 1000 then None else Some order)"
  by (simp only: cleanup_mem_orders cleanup_mem_algo_orders simp_thms)

text \<open>An order that is pending and old is removed: the status is not looked at.\<close>

theorem cleanup_removes_open_order:
  "status open_order1 = PENDING
   \<and> \<not> is_closed open_order1
   \<and> mem_orders (order_initialized cache0 (Plain open_order1)) ''u1'' = Some open_order1
   \<and> mem_orders (cleanup_expired_data 4000000 (order_initialized cache0 (Plain open_order1)))
        ''u1'' = None"
  by (simp add: cleanup_mem_orders is_closed_def open_order1_def cache0_def init_cache_def
      check_status_transition_def)

section \<open>The transition check of a status update\<close>

text \<open>
  Claim C4.  When \<open>_order_status_update\<close> receives an \<open>Order\<close> whose uuid has a prior order in
  \<open>_mem_orders\<close>: if the pair (prior status, new status) is not in \<open>STATUS_TRANSITIONS\<close>,
  the update is dropped with one error record and \<open>_mem_orders\<close>, \<open>_mem_open_orders\<close> and
  \<open>_mem_symbol_open_orders\<close> are unchanged (the cache differs by the log record only); if
  the pair is in the table, the new order is committed.
\<close>

theorem status_update_checks_transition:
  assumes "mem_orders c (uuid order) = Some previous_order"
  shows "(status order \<notin> set (STATUS_TRANSITIONS (status previous_order)) \<longrightarrow>
            order_status_update c (Plain order)
              = c\<lparr>error_log := error_log c @ [(status previous_order, status order)]\<rparr>
          \<and> mem_orders (order_status_update c (Plain order)) = mem_orders c
          \<and> mem_open_orders (order_status_update c (Plain order)) = mem_open_orders c
          \<and> mem_symbol_open_orders (order_status_update c (Plain order))
              = mem_symbol_open_orders c)
       \<and> (status order \<in> set (STATUS_TRANSITIONS (status previous_order)) \<longrightarrow>
            mem_orders (order_status_update c (Plain order)) (uuid order) = Some order
          \<and> error_log (order_status_update c (Plain order)) = error_log c)"
  using assms by (simp add: check_status_transition_def Let_def)

theorem status_update_checks_transition_witness:
  "mem_orders (order_initialized cache0 (Plain open_order1)) (uuid filled_order1)
     = Some open_order1
   \<and> status filled_order1 \<in> set (STATUS_TRANSITIONS (status open_order1))
   \<and> mem_orders (order_status_update (order_initialized cache0 (Plain open_order1))
                   (Plain filled_order1)) (uuid filled_order1) = Some filled_order1
   \<and> mem_orders (order_initialized cache0 (Plain filled_order3)) (uuid (filled_order3\<lparr>status := PENDING\<rparr>))
     = Some filled_order3
   \<and> status (filled_order3\<lparr>status := PENDING\<rparr>) \<notin> set (STATUS_TRANSITIONS (status filled_order3))
   \<and> mem_orders (order_status_update (order_initialized cache0 (Plain filled_order3))
                   (Plain (filled_order3\<lparr>status := PENDING\<rparr>)))
     = mem_orders (order_initialized cache0 (Plain filled_order3))"
proof -
  have h1: "mem_orders (order_initialized cache0 (Plain open_order1)) (uuid filled_order1)
              = Some open_order1"
    by (simp add: cache0_def init_cache_def check_status_transition_def open_order1_def
        filled_order1_def)
  have h2: "status filled_order1 \<in> set (STATUS_TRANSITIONS (status open_order1))"
    by (simp add: open_order1_def filled_order1_def)
  have h3: "mem_orders (order_initialized cache0 (Plain filled_order3))
              (uuid (filled_order3\<lparr>status := PENDING\<rparr>)) = Some filled_order3"
    by (simp add: cache0_def init_cache_def check_status_transition_def)
  have h4: "status (filled_order3\<lparr>status := PENDING\<rparr>)
              \<notin> set (STATUS_TRANSITIONS (status filled_order3))"
    by (simp add: open_order1_def filled_order1_def filled_order3_def)
  from status_update_checks_transition [OF h1] status_update_checks_transition [OF h3] h1 h2 h3 h4
  show ?thesis by blast
qed

section \<open>Evaluating the float operations\<close>

lemma floor_rat_numeral: "\<lfloor>numeral a / numeral b :: rat\<rfloor> = numeral a div numeral b"
  by (metis floor_divide_of_int_eq of_int_numeral)

lemma ceiling_rat_numeral:
  "\<lceil>numeral a / numeral b :: rat\<rceil> = - (- numeral a div numeral b)"
  by (metis ceiling_divide_eq_div of_int_numeral)

lemma find_exponent_numeral:
  "find_exponent b (numeral k) x e =
     (if x < pow_int b e then find_exponent b (pred_numeral k) x (e - 1)
      else if pow_int b (e + 1) \<le> x then find_exponent b (pred_numeral k) x (e + 1)
      else e)"
  by (simp add: numeral_eq_Suc)

lemma shortest_digits_numeral:
  "shortest_digits (numeral k) e x =
     (case choose_digits x (round_down_to (pow_int 10 e) x) (round_up_to (pow_int 10 e) x) of
        Some d \<Rightarrow> d
      | None \<Rightarrow> shortest_digits (pred_numeral k) (e - 1) x)"
  by (simp add: numeral_eq_Suc)

lemmas float_eval =
  to_double_def round_to_def round_half_even_def exponent_of_def pow_int_def
  round_down_to_def round_up_to_def choose_digits_def float_str_def
  floor_rat_numeral ceiling_rat_numeral find_exponent_numeral shortest_digits_numeral

lemma ieee_fields:
  "fl_of_decimal ieee x = to_double x"
  "fl_add ieee a b = to_double (a + b)"
  "fl_sub ieee a b = to_double (a - b)"
  "fl_div ieee a b = to_double (a / b)"
  "fl_str ieee x = float_str x"
  by (simp_all add: ieee_def)

text \<open>The floats of the examples, each with the decimal that \<open>str\<close> prints for it.\<close>

lemma float_examples:
  "float_str (to_double (to_double (3 / 100) / 3)) = 1 / 100"
  "float_str (to_double (to_double (9 / 1000) / 6)) = 14999999999999998 / 10 ^ 19"
  "float_str (to_double (to_double (4 / 10000) / 1)) = 4 / 10000"
  "to_double (60 / 9) = 7505999378950827 / 1125899906842624"
  "to_double (30 / 3) = 10"
  by (simp_all add: float_eval)

section \<open>The slices of a TWAP order\<close>

lemma py_int_nonneg: "0 \<le> x \<Longrightarrow> py_int x = \<lfloor>x\<rfloor>"
  by (simp add: py_int_def)

lemma floor_quotient_bounds:
  fixes tot base :: rat
  assumes "0 < base"
  shows "0 \<le> tot - of_int \<lfloor>tot / base\<rfloor> * base"
    and "tot - of_int \<lfloor>tot / base\<rfloor> * base < base"
proof -
  have tb: "tot / base * base = tot" using assms by simp
  have "of_int \<lfloor>tot / base\<rfloor> * base \<le> tot / base * base"
    using assms by (intro mult_right_mono) simp_all
  with tb show "0 \<le> tot - of_int \<lfloor>tot / base\<rfloor> * base" by simp
  have "tot / base < of_int \<lfloor>tot / base\<rfloor> + 1" by linarith
  then have "tot / base * base < (of_int \<lfloor>tot / base\<rfloor> + 1) * base"
    using assms by (intro mult_strict_right_mono) simp_all
  with tb show "tot - of_int \<lfloor>tot / base\<rfloor> * base < base"
    by (simp add: algebra_simps)
qed

lemma of_nat_pred_nat: "1 \<le> i \<Longrightarrow> (of_nat (nat i - 1) :: rat) = of_int i - 1"
proof -
  assume a: "1 \<le> i"
  then have "nat i - 1 = nat (i - 1)" by simp
  moreover have "(of_nat (nat (i - 1)) :: rat) = of_int (i - 1)" using a by simp
  ultimately show ?thesis by simp
qed

lemma sum_list_twap_slices:
  fixes tot base mn :: rat
  assumes "0 < base" and "0 < tot" and "mn \<le> tot"
  shows "sum_list (twap_slices tot base mn) = tot"
proof -
  let ?i = "\<lfloor>tot / base\<rfloor>"
  let ?r = "tot - of_int ?i * base"
  have i0: "0 \<le> ?i" using assms by simp
  show ?thesis
  proof (cases "?r < mn")
    case True
    have "?i \<noteq> 0"
    proof
      assume "?i = 0"
      then have "?r = tot" by simp
      with True assms(3) show False by simp
    qed
    with i0 have i1: "1 \<le> ?i" by linarith
    have "sum_list (twap_slices tot base mn)
            = of_nat (nat ?i - 1) * base + (base + ?r)"
      using True by (simp add: twap_slices_def Let_def sum_list_replicate)
    also have "\<dots> = (of_int ?i - 1) * base + (base + ?r)"
      by (simp only: of_nat_pred_nat [OF i1])
    also have "\<dots> = tot" by (simp add: algebra_simps)
    finally show ?thesis .
  next
    case False
    have "sum_list (twap_slices tot base mn) = of_nat (nat ?i) * base + ?r"
      using False by (simp add: twap_slices_def Let_def sum_list_replicate)
    also have "\<dots> = of_int ?i * base + ?r" using i0 by simp
    also have "\<dots> = tot" by simp
    finally show ?thesis .
  qed
qed

lemma calculate_twap_orders_main:
  assumes "market symb = Some m" and "tot \<noteq> 0" and "mn \<le> tot" and "0 \<le> mn"
    and "wait \<noteq> 0" and "\<lfloor>duration / wait\<rfloor> \<noteq> 0"
    and "base_amount_of fl (precision_amount m) tot duration wait mn \<noteq> 0"
  shows "calculate_twap_orders fl market symb tot duration wait mn =
           Inr (twap_slices tot (base_amount_of fl (precision_amount m) tot duration wait mn) mn,
                fl_div fl duration (of_nat (length (twap_slices tot
                   (base_amount_of fl (precision_amount m) tot duration wait mn) mn))))"
proof -
  let ?b = "base_amount_of fl (precision_amount m) tot duration wait mn"
  have b: "0 < ?b" using assms(4,7) by (simp add: base_amount_of_def max_def split: if_splits)
  have t: "0 < tot" using assms(2,3,4) by simp
  have q: "0 \<le> tot / ?b" using b t by simp
  have pi: "py_int (tot / ?b) = \<lfloor>tot / ?b\<rfloor>" using q by (rule py_int_nonneg)
  have i0: "0 \<le> \<lfloor>tot / ?b\<rfloor>" using q by simp
  have r: "\<lfloor>tot / ?b\<rfloor> \<le> 0 \<longrightarrow> \<not> tot - of_int \<lfloor>tot / ?b\<rfloor> * ?b < mn"
  proof
    assume "\<lfloor>tot / ?b\<rfloor> \<le> 0"
    with i0 have "\<lfloor>tot / ?b\<rfloor> = 0" by linarith
    with assms(3) show "\<not> tot - of_int \<lfloor>tot / ?b\<rfloor> * ?b < mn" by simp
  qed
  have base_eq:
    "max mn (to_precision (precision_amount m)
               (fl_str fl (fl_div fl (fl_of_decimal fl tot) (of_int \<lfloor>duration / wait\<rfloor>)))
               Round) = ?b"
    by (simp add: base_amount_of_def)
  have list_eq:
    "(if tot - of_int \<lfloor>tot / ?b\<rfloor> * ?b < mn
      then (if \<lfloor>tot / ?b\<rfloor> \<le> 0 then Inl IndexError
            else Inr (replicate (nat \<lfloor>tot / ?b\<rfloor> - 1) ?b
                      @ [?b + (tot - of_int \<lfloor>tot / ?b\<rfloor> * ?b)]))
      else Inr (replicate (nat \<lfloor>tot / ?b\<rfloor>) ?b @ [tot - of_int \<lfloor>tot / ?b\<rfloor> * ?b]))
     = (Inr (twap_slices tot ?b mn) :: py_error + rat list)"
    using r by (simp add: twap_slices_def Let_def del: floor_le_zero)
  have ne: "twap_slices tot ?b mn \<noteq> []"
    by (simp add: twap_slices_def Let_def)
  show ?thesis
    unfolding calculate_twap_orders_def amount_to_precision_def
    using assms(1,2,3,5,6,7) ne
    by (simp add: Let_def base_eq pi list_eq not_less del: floor_le_zero)
qed

lemma base_amount_of_pos:
  assumes "0 \<le> mn" and "base_amount_of fl p tot duration wait mn \<noteq> 0"
  shows "0 < base_amount_of fl p tot duration wait mn"
  using assms by (simp add: base_amount_of_def max_def split: if_splits)

lemma quantum_pos: "0 < quantum p"
proof (cases "1 \<le> precision_value p")
  case True
  then have "1 \<le> \<lfloor>precision_value p\<rfloor>" by (simp add: le_floor_iff)
  with True show ?thesis by (simp add: quantum_def py_int_def)
next
  case False
  then show ?thesis by (simp add: quantum_def)
qed

lemma floor_near: "\<bar>of_int \<lfloor>y + 1 / 2\<rfloor> - y\<bar> \<le> (1 / 2 :: rat)"
proof -
  have "of_int \<lfloor>y + 1 / 2\<rfloor> \<le> y + 1 / 2" by (rule of_int_floor_le)
  moreover have "y + 1 / 2 < of_int \<lfloor>y + 1 / 2\<rfloor> + 1"
    using floor_correct [of "y + 1 / 2"] by simp
  ultimately show ?thesis by (simp only: abs_le_iff) linarith
qed

lemma round_half_up_near: "\<bar>of_int (round_half_up x) - x\<bar> \<le> 1 / 2"
proof (cases "0 \<le> x")
  case True
  with floor_near [of x] show ?thesis by (simp add: round_half_up_def)
next
  case False
  have "\<bar>- of_int \<lfloor>- x + 1 / 2\<rfloor> - x\<bar> = \<bar>of_int \<lfloor>- x + 1 / 2\<rfloor> - (- x)\<bar>"
    using abs_minus_cancel [of "of_int \<lfloor>- x + 1 / 2\<rfloor> + x"] by (simp add: algebra_simps)
  with floor_near [of "- x"] False show ?thesis by (simp add: round_half_up_def)
qed

lemma to_precision_round:
  "to_precision p x Round = of_int (round_half_up (x / quantum p)) * quantum p"
  by (simp add: to_precision_def quantum_def quantize_def Let_def)

lemma to_precision_round_near: "\<bar>to_precision p x Round - x\<bar> \<le> quantum p / 2"
proof -
  let ?q = "quantum p"
  let ?k = "round_half_up (x / ?q)"
  have q: "0 < ?q" by (rule quantum_pos)
  have "\<bar>of_int ?k - x / ?q\<bar> * ?q \<le> 1 / 2 * ?q"
    using q by (intro mult_right_mono round_half_up_near) simp
  moreover have "\<bar>of_int ?k - x / ?q\<bar> * ?q = \<bar>of_int ?k * ?q - x\<bar>"
  proof -
    have "\<bar>of_int ?k - x / ?q\<bar> * ?q = \<bar>(of_int ?k - x / ?q) * ?q\<bar>"
      using q by (simp add: abs_mult)
    also have "(of_int ?k - x / ?q) * ?q = of_int ?k * ?q - x"
      using q by (simp add: algebra_simps)
    finally show ?thesis .
  qed
  ultimately show ?thesis by (simp add: to_precision_round)
qed

text \<open>
  Claim C5, amended.  \<open>_calculate_twap_orders\<close> returns \<open>([], 0)\<close> when the total is 0 and
  \<open>([min], 0)\<close> when \<open>0 < total < min\<close>.  Otherwise, for a known symbol, a minimum that is
  not negative and a total of at least the minimum, and when \<open>wait\<close>, \<open>\<lfloor>duration / wait\<rfloor>\<close>
  and \<open>base\<close> are not 0: with \<open>base\<close> the larger of \<open>min\<close> and the float quotient
  \<open>float(total) / \<lfloor>duration / wait\<rfloor>\<close>, as \<open>str\<close> prints it, rounded to the amount precision,
  \<open>interval = \<lfloor>total / base\<rfloor>\<close> and \<open>r = total - interval * base\<close>, it returns \<open>interval\<close>
  slices of \<open>base\<close> with the last slice increased by \<open>r\<close> when \<open>r < min\<close>, else \<open>interval\<close>
  slices of \<open>base\<close> and one more slice of \<open>r\<close>; the wait returned is the float quotient of
  \<open>duration\<close> and the number of slices, and the slices sum exactly to the total.  Rounding
  to the precision gives a multiple of the rounding step that is at most half a step away.
\<close>

theorem calculate_twap_orders_slices:
  "calculate_twap_orders fl market symb 0 duration wait mn = Inr ([], 0)
   \<and> (0 < tot \<and> tot < mn \<longrightarrow>
        calculate_twap_orders fl market symb tot duration wait mn = Inr ([mn], 0))
   \<and> (market symb = Some m \<and> 0 \<le> mn \<and> mn \<le> tot \<and> tot \<noteq> 0 \<and> wait \<noteq> 0
        \<and> \<lfloor>duration / wait\<rfloor> \<noteq> 0
        \<and> base_amount_of fl (precision_amount m) tot duration wait mn \<noteq> 0 \<longrightarrow>
        calculate_twap_orders fl market symb tot duration wait mn =
          Inr (twap_slices tot (base_amount_of fl (precision_amount m) tot duration wait mn) mn,
               fl_div fl duration (of_nat (length (twap_slices tot
                  (base_amount_of fl (precision_amount m) tot duration wait mn) mn))))
        \<and> sum_list
            (twap_slices tot (base_amount_of fl (precision_amount m) tot duration wait mn) mn)
            = tot)
   \<and> (\<exists>k :: int. to_precision p x Round = of_int k * quantum p)
   \<and> \<bar>to_precision p x Round - x\<bar> \<le> quantum p / 2"
proof (intro conjI impI)
  show "calculate_twap_orders fl market symb 0 duration wait mn = Inr ([], 0)"
    by (simp add: calculate_twap_orders_def)
next
  assume "0 < tot \<and> tot < mn"
  then show "calculate_twap_orders fl market symb tot duration wait mn = Inr ([mn], 0)"
    by (simp add: calculate_twap_orders_def)
next
  assume a: "market symb = Some m \<and> 0 \<le> mn \<and> mn \<le> tot \<and> tot \<noteq> 0 \<and> wait \<noteq> 0
        \<and> \<lfloor>duration / wait\<rfloor> \<noteq> 0
        \<and> base_amount_of fl (precision_amount m) tot duration wait mn \<noteq> 0"
  then show "calculate_twap_orders fl market symb tot duration wait mn =
          Inr (twap_slices tot (base_amount_of fl (precision_amount m) tot duration wait mn) mn,
               fl_div fl duration (of_nat (length (twap_slices tot
                  (base_amount_of fl (precision_amount m) tot duration wait mn) mn))))"
    by (intro calculate_twap_orders_main) simp_all
  from a have "0 < base_amount_of fl (precision_amount m) tot duration wait mn"
    by (intro base_amount_of_pos) simp_all
  moreover from a have "0 < tot" by simp
  ultimately
  show "sum_list
          (twap_slices tot (base_amount_of fl (precision_amount m) tot duration wait mn) mn)
          = tot"
    using a by (intro sum_list_twap_slices) simp_all
next
  show "\<exists>k :: int. to_precision p x Round = of_int k * quantum p"
    unfolding to_precision_round by blast
next
  show "\<bar>to_precision p x Round - x\<bar> \<le> quantum p / 2"
    by (rule to_precision_round_near)
qed

lemma base_amount_examples:
  "base_amount_of ieee (precision_amount btc_market) (3 / 100) 30 10 (1 / 1000) = 1 / 100"
  "base_amount_of ieee (precision_amount btc_market) (9 / 1000) 60 10 (1 / 1000) = 1 / 1000"
  "twap_base (precision_amount btc_market) (9 / 1000) 60 10 (1 / 1000) = 2 / 1000"
  by (simp_all add: base_amount_of_def twap_base_def ieee_fields float_examples btc_market_def
      to_precision_def quantize_def round_half_up_def precision_value_def floor_rat_numeral)

lemma base_amount_zero:
  "base_amount_of ieee (precision_amount btc_market) (4 / 10000) 1 1 0 = 0"
  using float_examples(3)
  by (simp add: base_amount_of_def ieee_fields btc_market_def to_precision_def quantize_def
      round_half_up_def precision_value_def floor_rat_numeral)

lemma twap_slices_example:
  "twap_slices (3 / 100) (1 / 100) (1 / 1000) = [1 / 100, 1 / 100, 1 / 100]"
  "twap_slices (9 / 1000) (1 / 1000) (1 / 1000)
     = [1 / 1000, 1 / 1000, 1 / 1000, 1 / 1000, 1 / 1000, 1 / 1000, 1 / 1000, 1 / 1000,
        1 / 1000]"
  "twap_slices (9 / 1000) (2 / 1000) (1 / 1000)
     = [2 / 1000, 2 / 1000, 2 / 1000, 2 / 1000, 1 / 1000]"
  "\<lfloor>(30 :: rat) / 10\<rfloor> = 3"
  "\<lfloor>(60 :: rat) / 10\<rfloor> = 6"
  by code_simp+

theorem calculate_twap_orders_slices_witness:
  "markets1 ''BTCUSDT'' = Some btc_market
   \<and> base_amount_of ieee (precision_amount btc_market) (3 / 100) 30 10 (1 / 1000) = 1 / 100
   \<and> calculate_twap_orders ieee markets1 ''BTCUSDT'' (3 / 100) 30 10 (1 / 1000)
       = Inr ([1 / 100, 1 / 100, 1 / 100], 10)
   \<and> sum_list [1 / 100, 1 / 100, 1 / 100] = (3 / 100 :: rat)
   \<and> calculate_twap_orders ieee markets1 ''BTCUSDT'' (1 / 2000) 30 10 (1 / 1000)
       = Inr ([1 / 1000], 0)"
proof -
  have h: "markets1 ''BTCUSDT'' = Some btc_market"
    by (simp add: markets1_def)
  have small: "(0 :: rat) < 1 / 2000 \<and> (1 / 2000 :: rat) < 1 / 1000" by simp
  have b: "base_amount_of ieee (precision_amount btc_market) (3 / 100) 30 10 (1 / 1000) = 1 / 100"
    by (rule base_amount_examples(1))
  have w: "fl_div ieee 30 (of_nat (length [1 / 100, 1 / 100, 1 / 100 :: rat])) = 10"
    using float_examples(5) by (simp add: ieee_fields)
  have hyps: "markets1 ''BTCUSDT'' = Some btc_market \<and> (0 :: rat) \<le> 1 / 1000
      \<and> (1 / 1000 :: rat) \<le> 3 / 100 \<and> (3 / 100 :: rat) \<noteq> 0 \<and> (10 :: rat) \<noteq> 0
      \<and> \<lfloor>(30 :: rat) / 10\<rfloor> \<noteq> 0
      \<and> base_amount_of ieee (precision_amount btc_market) (3 / 100) 30 10 (1 / 1000) \<noteq> 0"
    using h by (simp add: twap_slices_example b)
  from calculate_twap_orders_slices
         [of ieee markets1 "''BTCUSDT''" 30 10 "1 / 1000" "3 / 100" btc_market]
       hyps
  have "calculate_twap_orders ieee markets1 ''BTCUSDT'' (3 / 100) 30 10 (1 / 1000) =
          Inr (twap_slices (3 / 100)
                 (base_amount_of ieee (precision_amount btc_market) (3 / 100) 30 10 (1 / 1000))
                 (1 / 1000),
               fl_div ieee 30 (of_nat (length (twap_slices (3 / 100)
                 (base_amount_of ieee (precision_amount btc_market) (3 / 100) 30 10 (1 / 1000))
                 (1 / 1000)))))"
    by blast
  then have big: "calculate_twap_orders ieee markets1 ''BTCUSDT'' (3 / 100) 30 10 (1 / 1000)
               = Inr ([1 / 100, 1 / 100, 1 / 100], 10)"
    unfolding b twap_slices_example w .
  from calculate_twap_orders_slices
         [of ieee markets1 "''BTCUSDT''" 30 10 "1 / 1000" "1 / 2000" btc_market]
       small
  have "calculate_twap_orders ieee markets1 ''BTCUSDT'' (1 / 2000) 30 10 (1 / 1000)
               = Inr ([1 / 1000], 0)"
    by blast
  moreover have "sum_list [1 / 100, 1 / 100, 1 / 100] = (3 / 100 :: rat)" by simp
  ultimately show ?thesis using h b big by blast
qed

text \<open>
  With the exact quotient the claim fails.  At a total of 0.009, a duration of 60, a wait
  of 10 and a minimum of 0.001 at a precision of 0.001, the quotient \<open>0.009 / 6\<close> is 0.0015,
  which rounds to 0.002: the claim gives four slices of 0.002 and one of 0.001, with a
  wait of 12.  The float quotient is printed as \<open>0.0014999999999999998\<close>, which rounds to
  0.001: the code returns nine slices of 0.001, with the float \<open>60 / 9\<close> as the wait.
\<close>

theorem calculate_twap_orders_slices_counterexample:
  "twap_slices (9 / 1000)
      (twap_base (precision_amount btc_market) (9 / 1000) 60 10 (1 / 1000)) (1 / 1000)
     = [2 / 1000, 2 / 1000, 2 / 1000, 2 / 1000, 1 / 1000]
   \<and> fl_str ieee (fl_div ieee (fl_of_decimal ieee (9 / 1000)) (of_int \<lfloor>60 / 10 :: rat\<rfloor>))
       = 14999999999999998 / 10 ^ 19
   \<and> calculate_twap_orders ieee markets1 ''BTCUSDT'' (9 / 1000) 60 10 (1 / 1000)
       = Inr ([1 / 1000, 1 / 1000, 1 / 1000, 1 / 1000, 1 / 1000, 1 / 1000, 1 / 1000, 1 / 1000,
               1 / 1000],
              7505999378950827 / 1125899906842624)"
proof -
  have h: "markets1 ''BTCUSDT'' = Some btc_market"
    by (simp add: markets1_def)
  have b: "base_amount_of ieee (precision_amount btc_market) (9 / 1000) 60 10 (1 / 1000)
             = 1 / 1000"
    by (rule base_amount_examples(2))
  have w: "fl_div ieee 60
             (of_nat (length [1 / 1000, 1 / 1000, 1 / 1000, 1 / 1000, 1 / 1000, 1 / 1000,
                              1 / 1000, 1 / 1000, 1 / 1000 :: rat]))
           = 7505999378950827 / 1125899906842624"
    using float_examples(4) by (simp add: ieee_fields)
  have q: "fl_str ieee (fl_div ieee (fl_of_decimal ieee (9 / 1000)) (of_int \<lfloor>60 / 10 :: rat\<rfloor>))
             = 14999999999999998 / 10 ^ 19"
    by (simp add: ieee_fields twap_slices_example float_examples)
  have "calculate_twap_orders ieee markets1 ''BTCUSDT'' (9 / 1000) 60 10 (1 / 1000) =
          Inr (twap_slices (9 / 1000)
                 (base_amount_of ieee (precision_amount btc_market) (9 / 1000) 60 10 (1 / 1000))
                 (1 / 1000),
               fl_div ieee 60 (of_nat (length (twap_slices (9 / 1000)
                 (base_amount_of ieee (precision_amount btc_market) (9 / 1000) 60 10 (1 / 1000))
                 (1 / 1000)))))"
    using h by (intro calculate_twap_orders_main) (simp_all add: twap_slices_example b)
  then have code: "calculate_twap_orders ieee markets1 ''BTCUSDT'' (9 / 1000) 60 10 (1 / 1000)
       = Inr ([1 / 1000, 1 / 1000, 1 / 1000, 1 / 1000, 1 / 1000, 1 / 1000, 1 / 1000, 1 / 1000,
               1 / 1000],
              7505999378950827 / 1125899906842624)"
    unfolding b twap_slices_example w .
  have "twap_slices (9 / 1000)
      (twap_base (precision_amount btc_market) (9 / 1000) 60 10 (1 / 1000)) (1 / 1000)
     = [2 / 1000, 2 / 1000, 2 / 1000, 2 / 1000, 1 / 1000]"
    unfolding base_amount_examples(3) twap_slices_example ..
  with q code show ?thesis by blast
qed

section \<open>The divisions of \<open>_calculate_twap_orders\<close>\<close>

lemma calculate_twap_orders_zero_interval:
  assumes "tot \<noteq> 0" and "mn \<le> tot" and "wait = 0 \<or> \<lfloor>duration / wait\<rfloor> = 0"
  shows "calculate_twap_orders fl market symb tot duration wait mn = Inl ZeroDivisionError"
  using assms by (auto simp: calculate_twap_orders_def Let_def)

lemma floor_quotient_pos:
  fixes duration wait :: rat
  assumes "0 < wait" and "wait \<le> duration"
  shows "1 \<le> \<lfloor>duration / wait\<rfloor>"
proof -
  from assms have "1 \<le> duration / wait" by (simp add: pos_le_divide_eq)
  then show ?thesis by (simp add: le_floor_iff)
qed

lemma twap_slices_nonempty: "twap_slices tot base mn \<noteq> []"
  by (simp add: twap_slices_def Let_def)

lemma calculate_twap_orders_returns:
  assumes "market symb = Some m" and "0 < mn" and "0 < wait" and "wait \<le> duration"
  shows "\<exists>res. calculate_twap_orders fl market symb tot duration wait mn = Inr res"
proof -
  have i: "\<lfloor>duration / wait\<rfloor> \<noteq> 0" using floor_quotient_pos [OF assms(3,4)] by linarith
  have b: "base_amount_of fl (precision_amount m) tot duration wait mn \<noteq> 0"
    using assms(2) by (simp add: base_amount_of_def max_def)
  consider "tot = 0" | "tot \<noteq> 0" "tot < mn" | "tot \<noteq> 0" "mn \<le> tot" by linarith
  then show ?thesis
  proof cases
    case 1
    then show ?thesis by (simp add: calculate_twap_orders_def)
  next
    case 2
    then show ?thesis by (simp add: calculate_twap_orders_def)
  next
    case 3
    have "0 \<le> mn" and "wait \<noteq> 0" using assms(2,3) by simp_all
    from calculate_twap_orders_main [of market symb m, OF assms(1) 3(1) 3(2) this i b]
    show ?thesis by simp
  qed
qed

text \<open>
  Claim C10, amended.  For every input with a total that is not 0 and at least the
  minimum, the call raises \<open>ZeroDivisionError\<close> when \<open>wait\<close> is 0 or
  \<open>\<lfloor>duration / wait\<rfloor>\<close> is 0 (in particular when \<open>0 \<le> duration < wait\<close>).  Under the
  precondition \<open>wait > 0\<close>, \<open>duration \<ge> wait\<close> and a minimum order amount above 0, every
  division of the function has a divisor that is not 0 (\<open>wait\<close>, \<open>\<lfloor>duration / wait\<rfloor>\<close>, the
  base amount and the number of slices), and the call returns.
\<close>

theorem calculate_twap_orders_divisions:
  "(tot \<noteq> 0 \<and> mn \<le> tot \<and> (wait = 0 \<or> \<lfloor>duration / wait\<rfloor> = 0) \<longrightarrow>
      calculate_twap_orders fl market symb tot duration wait mn = Inl ZeroDivisionError)
   \<and> (tot \<noteq> 0 \<and> mn \<le> tot \<and> 0 \<le> duration \<and> duration < wait \<longrightarrow>
      calculate_twap_orders fl market symb tot duration wait mn = Inl ZeroDivisionError)
   \<and> (market symb = Some m \<and> 0 < mn \<and> 0 < wait \<and> wait \<le> duration \<longrightarrow>
        wait \<noteq> 0 \<and> \<lfloor>duration / wait\<rfloor> \<noteq> 0
        \<and> base_amount_of fl (precision_amount m) tot duration wait mn \<noteq> 0
        \<and> length (twap_slices tot
                    (base_amount_of fl (precision_amount m) tot duration wait mn) mn) \<noteq> 0
        \<and> (\<exists>res. calculate_twap_orders fl market symb tot duration wait mn = Inr res))"
proof (intro conjI impI)
  assume "tot \<noteq> 0 \<and> mn \<le> tot \<and> (wait = 0 \<or> \<lfloor>duration / wait\<rfloor> = 0)"
  then show "calculate_twap_orders fl market symb tot duration wait mn = Inl ZeroDivisionError"
    by (intro calculate_twap_orders_zero_interval) simp_all
next
  assume a: "tot \<noteq> 0 \<and> mn \<le> tot \<and> 0 \<le> duration \<and> duration < wait"
  then have "0 \<le> duration / wait" and "duration / wait < 1" by simp_all
  then have "\<lfloor>duration / wait\<rfloor> = 0" by linarith
  with a show "calculate_twap_orders fl market symb tot duration wait mn = Inl ZeroDivisionError"
    by (intro calculate_twap_orders_zero_interval) simp_all
next
  assume a: "market symb = Some m \<and> 0 < mn \<and> 0 < wait \<and> wait \<le> duration"
  then show "wait \<noteq> 0" by simp
  from a have "1 \<le> \<lfloor>duration / wait\<rfloor>" by (intro floor_quotient_pos) simp_all
  then show "\<lfloor>duration / wait\<rfloor> \<noteq> 0" by linarith
  from a show "base_amount_of fl (precision_amount m) tot duration wait mn \<noteq> 0"
    by (simp add: base_amount_of_def max_def)
  show "length (twap_slices tot
                  (base_amount_of fl (precision_amount m) tot duration wait mn) mn) \<noteq> 0"
    by (simp add: twap_slices_nonempty)
  from a show "\<exists>res. calculate_twap_orders fl market symb tot duration wait mn = Inr res"
    by (intro calculate_twap_orders_returns) simp_all
qed

theorem calculate_twap_orders_divisions_witness:
  "markets1 ''BTCUSDT'' = Some btc_market
   \<and> calculate_twap_orders ieee markets1 ''BTCUSDT'' 1 5 10 (1 / 1000) = Inl ZeroDivisionError
   \<and> calculate_twap_orders ieee markets1 ''BTCUSDT'' 1 5 0 (1 / 1000) = Inl ZeroDivisionError
   \<and> \<lfloor>(30 :: rat) / 10\<rfloor> \<noteq> 0
   \<and> base_amount_of ieee (precision_amount btc_market) (3 / 100) 30 10 (1 / 1000) \<noteq> 0
   \<and> (\<exists>res. calculate_twap_orders ieee markets1 ''BTCUSDT'' (3 / 100) 30 10 (1 / 1000)
              = Inr res)"
proof -
  have h: "markets1 ''BTCUSDT'' = Some btc_market"
    by (simp add: markets1_def)
  have h1: "(1 :: rat) \<noteq> 0 \<and> (1 / 1000 :: rat) \<le> 1 \<and> (0 :: rat) \<le> 5 \<and> (5 :: rat) < 10"
    by simp
  have h2: "(1 :: rat) \<noteq> 0 \<and> (1 / 1000 :: rat) \<le> 1 \<and> ((0 :: rat) = 0 \<or> \<lfloor>(5 :: rat) / 0\<rfloor> = 0)"
    by simp
  have h3: "markets1 ''BTCUSDT'' = Some btc_market \<and> (0 :: rat) < 1 / 1000 \<and> (0 :: rat) < 10
            \<and> (10 :: rat) \<le> 30"
    using h by simp
  from calculate_twap_orders_divisions
         [of 1 "1 / 1000" 10 5 ieee markets1 "''BTCUSDT''" btc_market] h1
  have a: "calculate_twap_orders ieee markets1 ''BTCUSDT'' 1 5 10 (1 / 1000)
             = Inl ZeroDivisionError"
    by blast
  from calculate_twap_orders_divisions
         [of 1 "1 / 1000" 0 5 ieee markets1 "''BTCUSDT''" btc_market] h2
  have b: "calculate_twap_orders ieee markets1 ''BTCUSDT'' 1 5 0 (1 / 1000)
             = Inl ZeroDivisionError"
    by blast
  from calculate_twap_orders_divisions
         [of "3 / 100" "1 / 1000" 10 30 ieee markets1 "''BTCUSDT''" btc_market] h3
  have c: "\<lfloor>(30 :: rat) / 10\<rfloor> \<noteq> 0
     \<and> base_amount_of ieee (precision_amount btc_market) (3 / 100) 30 10 (1 / 1000) \<noteq> 0
     \<and> (\<exists>res. calculate_twap_orders ieee markets1 ''BTCUSDT'' (3 / 100) 30 10 (1 / 1000)
                = Inr res)"
    by blast
  from h a b c show ?thesis by blast
qed

text \<open>
  The claim as stated fails at a total of 0 with a minimum of 0: the inequality
  \<open>min \<le> total\<close> holds and \<open>\<lfloor>duration / wait\<rfloor>\<close> is 0, yet the call returns \<open>([], 0)\<close>.  It
  also fails at \<open>wait = duration = 1\<close> with a minimum of 0 and a total of 0.0004 at a
  precision of 0.001: the base amount is rounded to 0 and \<open>total // base\<close> divides by 0.
\<close>

lemma calculate_twap_orders_zero_base:
  "calculate_twap_orders ieee markets1 ''BTCUSDT'' (4 / 10000) 1 1 0 = Inl ZeroDivisionError"
proof -
  have "max 0 (to_precision (precision_amount btc_market)
                 (fl_str ieee (fl_div ieee (fl_of_decimal ieee (4 / 10000))
                    (of_int \<lfloor>1 / 1 :: rat\<rfloor>))) Round) = 0"
    using base_amount_zero by (simp add: base_amount_of_def)
  then show ?thesis
    unfolding calculate_twap_orders_def amount_to_precision_def
    by (simp add: markets1_def Let_def)
qed

theorem calculate_twap_orders_divisions_counterexample:
  "(0 :: rat) \<le> 0
   \<and> \<lfloor>(1 :: rat) / 2\<rfloor> = 0
   \<and> calculate_twap_orders ieee markets1 ''BTCUSDT'' 0 1 2 0 = Inr ([], 0)
   \<and> (0 :: rat) < 1
   \<and> (1 :: rat) \<le> 1
   \<and> calculate_twap_orders ieee markets1 ''BTCUSDT'' (4 / 10000) 1 1 0 = Inl ZeroDivisionError"
proof -
  have "\<lfloor>(1 :: rat) / 2\<rfloor> = 0" by code_simp
  moreover have "calculate_twap_orders ieee markets1 ''BTCUSDT'' 0 1 2 0 = Inr ([], 0)"
    by (simp add: calculate_twap_orders_def)
  ultimately show ?thesis using calculate_twap_orders_zero_base by simp
qed

end
